theory Spec2Isabelle
  imports Complex_Main "HOL-Library.Monad_Syntax"
begin

text \<open>
  A shallow embedding of the Resume Builder script (\<open>script.js\<close>): the pipeline that
  turns a populated template into a paginated PDF (\<open>adjustTemplateForContent\<close>,
  \<open>generatePDF\<close>, \<open>handleMultiPagePDF\<close>), the submit handler that drives it, and the
  field validation that guards it. The browser, html2canvas and jsPDF appear as data:
  the DOM as records, a PDF as a list of pages, image data as the region it was taken
  from.
\<close>

section \<open>JavaScript numbers\<close>

text \<open>
  A JavaScript number is modelled as an exact real number, or one of the three non-finite
  values that a division by zero produces. Rounding of IEEE-754 doubles is not modelled,
  and the two zeros are not distinguished (a zero divisor counts as \<open>+0\<close>). The model
  agrees with the doubles wherever every operand and every exact result is an integer
  below \<open>2^53\<close>: such sums, products and quotients are not rounded.
\<close>

datatype jsnum = Fin real | PInf | NInf | NaN

fun js_times :: "jsnum \<Rightarrow> jsnum \<Rightarrow> jsnum" where
  "js_times NaN _ = NaN"
| "js_times _ NaN = NaN"
| "js_times (Fin a) (Fin b) = Fin (a * b)"
| "js_times (Fin a) PInf = (if a = 0 then NaN else if 0 < a then PInf else NInf)"
| "js_times (Fin a) NInf = (if a = 0 then NaN else if 0 < a then NInf else PInf)"
| "js_times PInf (Fin b) = (if b = 0 then NaN else if 0 < b then PInf else NInf)"
| "js_times NInf (Fin b) = (if b = 0 then NaN else if 0 < b then NInf else PInf)"
| "js_times PInf PInf = PInf"
| "js_times PInf NInf = NInf"
| "js_times NInf PInf = NInf"
| "js_times NInf NInf = PInf"

fun js_divide :: "jsnum \<Rightarrow> jsnum \<Rightarrow> jsnum" where
  "js_divide NaN _ = NaN"
| "js_divide _ NaN = NaN"
| "js_divide (Fin a) (Fin b) =
     (if b = 0 then (if a = 0 then NaN else if 0 < a then PInf else NInf) else Fin (a / b))"
| "js_divide (Fin a) PInf = Fin 0"
| "js_divide (Fin a) NInf = Fin 0"
| "js_divide PInf (Fin b) = (if b < 0 then NInf else PInf)"
| "js_divide NInf (Fin b) = (if b < 0 then PInf else NInf)"
| "js_divide PInf PInf = NaN"
| "js_divide PInf NInf = NaN"
| "js_divide NInf PInf = NaN"
| "js_divide NInf NInf = NaN"

fun js_plus :: "jsnum \<Rightarrow> jsnum \<Rightarrow> jsnum" where
  "js_plus NaN _ = NaN"
| "js_plus _ NaN = NaN"
| "js_plus (Fin a) (Fin b) = Fin (a + b)"
| "js_plus PInf NInf = NaN"
| "js_plus NInf PInf = NaN"
| "js_plus PInf _ = PInf"
| "js_plus _ PInf = PInf"
| "js_plus NInf _ = NInf"
| "js_plus _ NInf = NInf"

definition js_sum :: "jsnum list \<Rightarrow> jsnum" where
  "js_sum xs = foldl js_plus (Fin 0) xs"

fun js_le :: "jsnum \<Rightarrow> jsnum \<Rightarrow> bool" where
  "js_le NaN _ = False"
| "js_le _ NaN = False"
| "js_le (Fin a) (Fin b) = (a \<le> b)"
| "js_le NInf _ = True"
| "js_le _ PInf = True"
| "js_le PInf _ = False"
| "js_le _ NInf = False"

fun js_less :: "jsnum \<Rightarrow> jsnum \<Rightarrow> bool" where
  "js_less NaN _ = False"
| "js_less _ NaN = False"
| "js_less (Fin a) (Fin b) = (a < b)"
| "js_less PInf _ = False"
| "js_less _ NInf = False"
| "js_less NInf _ = True"
| "js_less _ PInf = True"

text \<open>\<open>Math.ceil\<close>.\<close>

fun js_ceil :: "jsnum \<Rightarrow> jsnum" where
  "js_ceil (Fin a) = Fin (of_int \<lceil>a\<rceil>)"
| "js_ceil v = v"

text \<open>
  Conversion of a number to a Web IDL \<open>unsigned long\<close>, as done when a number is
  assigned to the \<open>width\<close> or \<open>height\<close> of a canvas: non-finite values become 0,
  finite ones are truncated towards zero and reduced modulo \<open>2^32\<close>. (A canvas
  replaces a value above \<open>2^31 - 1\<close> by its default size; this is not modelled.)
\<close>

definition js_trunc :: "real \<Rightarrow> int" where
  "js_trunc a = (if 0 \<le> a then \<lfloor>a\<rfloor> else \<lceil>a\<rceil>)"

fun toUnsignedLong :: "jsnum \<Rightarrow> nat" where
  "toUnsignedLong (Fin a) = nat (js_trunc a mod 2 ^ 32)"
| "toUnsignedLong _ = 0"

section \<open>Canvases and the PDF document\<close>

text \<open>
  A canvas is known by its pixel dimensions. Image data is kept symbolically: either the
  export of a whole canvas, or the export of a temporary page canvas together with the
  arguments of the one \<open>drawImage\<close> call that painted it.
\<close>

record canvas =
  width :: nat
  height :: nat

record pageCanvas =
  pcWidth :: nat
  pcHeight :: nat
  source :: canvas
  sourceX :: jsnum
  sourceY :: jsnum
  sourceWidth :: jsnum
  sourceHeight :: jsnum
  destX :: jsnum
  destY :: jsnum
  destWidth :: jsnum
  destHeight :: jsnum

datatype imgData = CanvasData canvas | PageData pageCanvas

record placedImage =
  imageData :: imgData
  imgFormat :: string
  imgX :: real
  imgY :: real
  imgW :: jsnum
  imgH :: jsnum

text \<open>
  A jsPDF document is a non-empty list of pages; each page lists the images placed on it,
  in the order of the \<open>addImage\<close> calls. A new document has one empty page;
  \<open>addPage\<close> appends a page and makes it current, \<open>addImage\<close> places on the
  current (last) page.
\<close>

type_synonym pdfPage = "placedImage list"
type_synonym pdf = "pdfPage list"

definition newPDF :: pdf where
  "newPDF = [[]]"

definition addPage :: "pdf \<Rightarrow> pdf" where
  "addPage doc = doc @ [[]]"

definition addImage :: "placedImage \<Rightarrow> pdf \<Rightarrow> pdf" where
  "addImage im doc = (if doc = [] then [[im]] else butlast doc @ [last doc @ [im]])"

definition slicesOf :: "pdf \<Rightarrow> pageCanvas list" where
  \<comment> \<open>the page canvases placed in a document, in page order\<close>
  "slicesOf doc =
     concat (map (\<lambda>pg. concat (map (\<lambda>im. case imageData im of PageData p \<Rightarrow> [p] | CanvasData _ \<Rightarrow> []) pg)) doc)"

section \<open>Paginator: \<open>handleMultiPagePDF\<close>\<close>

definition scaledHeight :: "canvas \<Rightarrow> real \<Rightarrow> jsnum" where
  \<comment> \<open>\<open>(canvas.height * imgWidth) / canvas.width\<close>\<close>
  "scaledHeight c imgWidth =
     js_divide (js_times (Fin (of_nat (height c))) (Fin imgWidth)) (Fin (of_nat (width c)))"

definition totalPagesOf :: "canvas \<Rightarrow> real \<Rightarrow> real \<Rightarrow> jsnum" where
  \<comment> \<open>\<open>Math.ceil(imgHeight / pageHeight)\<close>\<close>
  "totalPagesOf c pageWidth pageHeight =
     js_ceil (js_divide (scaledHeight c pageWidth) (Fin pageHeight))"

definition pageSlice :: "canvas \<Rightarrow> jsnum \<Rightarrow> nat \<Rightarrow> pageCanvas" where
  \<comment> \<open>the temporary canvas of one loop iteration\<close>
  "pageSlice c totalPages page =
     (let sourceY = js_times (Fin (of_nat page)) (js_divide (Fin (of_nat (height c))) totalPages);
          sourceHeight = js_divide (Fin (of_nat (height c))) totalPages
      in \<lparr> pcWidth = width c, pcHeight = toUnsignedLong sourceHeight, source = c,
           sourceX = Fin 0, sourceY = sourceY,
           sourceWidth = Fin (of_nat (width c)), sourceHeight = sourceHeight,
           destX = Fin 0, destY = Fin 0,
           destWidth = Fin (of_nat (width c)), destHeight = sourceHeight \<rparr>)"

definition pageBody :: "canvas \<Rightarrow> real \<Rightarrow> real \<Rightarrow> jsnum \<Rightarrow> nat \<Rightarrow> pdf \<Rightarrow> pdf" where
  \<comment> \<open>the body of the \<open>for\<close> loop\<close>
  "pageBody c imgWidth pageHeight totalPages page doc =
     addImage \<lparr> imageData = PageData (pageSlice c totalPages page), imgFormat = ''PNG'',
                imgX = 0, imgY = 0, imgW = Fin imgWidth, imgH = Fin pageHeight \<rparr>
       (if 0 < page then addPage doc else doc)"

text \<open>
  The loop \<open>for (let page = 0; page < totalPages; page++)\<close>. It does not end when
  \<open>totalPages\<close> is \<open>Infinity\<close>; not returning is the value \<open>None\<close>.
\<close>

partial_function (option) pageLoop ::
  "canvas \<Rightarrow> real \<Rightarrow> real \<Rightarrow> jsnum \<Rightarrow> nat \<Rightarrow> pdf \<Rightarrow> pdf option" where
  "pageLoop c imgWidth pageHeight totalPages page doc =
     (if js_less (Fin (of_nat page)) totalPages
      then pageLoop c imgWidth pageHeight totalPages (Suc page)
             (pageBody c imgWidth pageHeight totalPages page doc)
      else Some doc)"

declare pageLoop.simps [code]

definition handleMultiPagePDF :: "pdf \<Rightarrow> canvas \<Rightarrow> real \<Rightarrow> real \<Rightarrow> pdf option" where
  "handleMultiPagePDF doc c pageWidth pageHeight =
     (let imgWidth = pageWidth;
          totalPages = totalPagesOf c imgWidth pageHeight
      in pageLoop c imgWidth pageHeight totalPages 0 doc)"

section \<open>ContentFitter: \<open>adjustTemplateForContent\<close>\<close>

text \<open>
  Values assigned to style properties. Template literals that embed a number are kept
  symbolic: \<open>Scale f\<close> is \<open>scale(f)\<close> and \<open>Percent p\<close> is \<open>p%\<close>.
\<close>

datatype cssValue = Keyword string | Scale real | Percent real

type_synonym styleDecl = "string \<rightharpoonup> cssValue"

text \<open>
  A template root element (\<open>#pdf-modern\<close>, \<open>#pdf-classic\<close>, ...): its class list and
  inline style, the inline styles of the elements that
  \<open>querySelectorAll('.content-block, .classic-content-block, .creative-content-block')\<close>
  yields, in document order, and the inline style of the element that
  \<open>querySelector('.pdf-photo, .pdf-photo-classic, .pdf-photo-creative')\<close> yields
  (\<open>None\<close> for \<open>null\<close>).
\<close>

record template =
  classList :: "string list"
  style :: styleDecl
  contentBlocks :: "styleDecl list"
  photoStyle :: "styleDecl option"

definition classList_add :: "string \<Rightarrow> string list \<Rightarrow> string list" where
  \<comment> \<open>\<open>DOMTokenList.add\<close>: a token that is present is not added again\<close>
  "classList_add tok cl = (if tok \<in> set cl then cl else cl @ [tok])"

definition classList_remove :: "string \<Rightarrow> string list \<Rightarrow> string list" where
  "classList_remove tok cl = filter (\<lambda>x. x \<noteq> tok) cl"

definition scaleFactorOf :: "real \<Rightarrow> real" where
  \<comment> \<open>\<open>Math.max(0.75, 1 / overflowRatio)\<close>\<close>
  "scaleFactorOf overflowRatio = max 0.75 (1 / overflowRatio)"

definition applyScale :: "real \<Rightarrow> template \<Rightarrow> template" where
  \<comment> \<open>the body of \<open>if (overflowRatio > 1.6)\<close>\<close>
  "applyScale overflowRatio t =
     (let scaleFactor = scaleFactorOf overflowRatio
      in t\<lparr> style := (style t)
              (''transform'' \<mapsto> Scale scaleFactor,
               ''transformOrigin'' \<mapsto> Keyword ''top left'',
               ''width'' \<mapsto> Percent (100 / scaleFactor),
               ''height'' \<mapsto> Percent (100 / scaleFactor)) \<rparr>)"

definition compactBlock :: "styleDecl \<Rightarrow> styleDecl" where
  "compactBlock sectionStyle = sectionStyle(''margin'' \<mapsto> Keyword ''2px 0'', ''fontSize'' \<mapsto> Keyword ''9px'')"

definition shrinkPhoto :: "styleDecl \<Rightarrow> styleDecl" where
  "shrinkPhoto photo = photo(''width'' \<mapsto> Keyword ''50px'', ''height'' \<mapsto> Keyword ''50px'')"

definition applyManual :: "template \<Rightarrow> template" where
  \<comment> \<open>the body of \<open>if (overflowRatio > 2.0)\<close>\<close>
  "applyManual t =
     t\<lparr> contentBlocks := map compactBlock (contentBlocks t),
        photoStyle := (case photoStyle t of None \<Rightarrow> None | Some photo \<Rightarrow> Some (shrinkPhoto photo)) \<rparr>"

definition adjustForRatio :: "real \<Rightarrow> template \<Rightarrow> template" where
  \<comment> \<open>\<open>adjustTemplateForContent\<close> from the first \<open>if\<close> on, for a given \<open>overflowRatio\<close>\<close>
  "adjustForRatio overflowRatio t =
     (if overflowRatio > 1.1 then
        let t1 = t\<lparr> classList := classList_add ''compact'' (classList t) \<rparr>;
            t2 = (if overflowRatio > 1.6 then applyScale overflowRatio t1 else t1);
            t3 = (if overflowRatio > 2.0 then applyManual t2 else t2)
        in t3
      else t)"

definition overflowRatioOf :: "nat \<Rightarrow> real \<Rightarrow> real" where
  "overflowRatioOf contentHeight pageHeight = real contentHeight / pageHeight"

definition a4HeightPx :: real where
  \<comment> \<open>\<open>297 * 3.77953\<close>, the A4 height in pixels (approximate)\<close>
  "a4HeightPx = 297 * 3.77953"

text \<open>
  \<open>templateElement.scrollHeight\<close> is computed by the browser's layout; the function takes
  that measurement as \<open>scrollHeight\<close>. The final 150 ms wait has no effect on the state.
\<close>

definition adjustTemplateForContent :: "(template \<Rightarrow> nat) \<Rightarrow> template \<Rightarrow> template" where
  "adjustTemplateForContent scrollHeight templateElement =
     (let contentHeight = scrollHeight templateElement;
          pageHeight = a4HeightPx;
          overflowRatio = overflowRatioOf contentHeight pageHeight
      in adjustForRatio overflowRatio templateElement)"

section \<open>Strings\<close>

text \<open>
  Strings are lists of 8-bit characters; \<open>\s\<close> and \<open>trim\<close> are modelled on their ASCII
  white space (space, tab, line feed, vertical tab, form feed, carriage return).
\<close>

definition isWhiteSpace :: "char \<Rightarrow> bool" where
  "isWhiteSpace ch = (of_char ch \<in> {32, 9, 10, 11, 12, 13 :: nat})"

definition isLetter :: "char \<Rightarrow> bool" where
  "isLetter ch = (let n = (of_char ch :: nat) in (97 \<le> n \<and> n \<le> 122) \<or> (65 \<le> n \<and> n \<le> 90))"

definition isDigit :: "char \<Rightarrow> bool" where
  "isDigit ch = (let n = (of_char ch :: nat) in 48 \<le> n \<and> n \<le> 57)"

definition js_trim :: "string \<Rightarrow> string" where
  "js_trim str = rev (dropWhile isWhiteSpace (rev (dropWhile isWhiteSpace str)))"

fun split_on :: "char \<Rightarrow> string \<Rightarrow> string list" where
  \<comment> \<open>\<open>str.split(sep)\<close> for a one-character separator\<close>
  "split_on sep [] = [[]]"
| "split_on sep (ch # rest) =
     (if ch = sep then [] # split_on sep rest
      else (case split_on sep rest of [] \<Rightarrow> [[ch]] | part # parts \<Rightarrow> (ch # part) # parts))"

definition namePattern :: "string \<Rightarrow> bool" where
  \<comment> \<open>\<open>/^[a-zA-Z\s'-]+$/\<close>\<close>
  "namePattern str =
     (str \<noteq> [] \<and> list_all (\<lambda>ch. isLetter ch \<or> isWhiteSpace ch \<or> of_char ch = (39::nat) \<or> ch = CHR ''-'') str)"

definition emailPattern :: "string \<Rightarrow> bool" where
  \<comment> \<open>\<open>/^[^\s@]+@[^\s@]+\.[^\s@]+$/\<close>\<close>
  "emailPattern str =
     (let local = takeWhile (\<lambda>ch. ch \<noteq> CHR ''@'') str;
          rest = drop (length local) str;
          domain = tl rest
      in local \<noteq> [] \<and> list_all (\<lambda>ch. \<not> isWhiteSpace ch) local
       \<and> rest \<noteq> []
       \<and> list_all (\<lambda>ch. \<not> isWhiteSpace ch \<and> ch \<noteq> CHR ''@'') domain
       \<and> CHR ''.'' \<in> set (butlast (tl domain)))"

definition phonePattern :: "string \<Rightarrow> bool" where
  \<comment> \<open>\<open>/^[\+]?[\d\s\(\)\-]{10,}$/\<close>\<close>
  "phonePattern str =
     (let body = (case str of [] \<Rightarrow> [] | ch # rest \<Rightarrow> if ch = CHR ''+'' then rest else str)
      in 10 \<le> length body
       \<and> list_all (\<lambda>ch. isDigit ch \<or> isWhiteSpace ch \<or> ch = CHR ''('' \<or> ch = CHR '')'' \<or> ch = CHR ''-'') body)"

section \<open>Validation rules\<close>

text \<open>
  A custom validator returns \<open>true\<close> or an error message; \<open>None\<close> stands for
  \<open>true\<close>.
\<close>

record rules =
  required :: bool
  minLength :: "nat option"
  pattern :: "(string \<Rightarrow> bool) option"
  customValidator :: "(string \<Rightarrow> string option) option"
  message :: string

definition skillsValidator :: "string \<Rightarrow> string option" where
  "skillsValidator val =
     (if js_trim val = [] then None
      else let skills = filter (\<lambda>sk. 0 < length sk) (map js_trim (split_on CHR '','' val))
           in if 2 \<le> length skills then None
              else Some ''Please enter at least 2 skills separated by commas'')"

definition plainRule :: "bool \<Rightarrow> nat \<Rightarrow> string \<Rightarrow> rules" where
  "plainRule req len msg =
     \<lparr> required = req, minLength = Some len, pattern = None, customValidator = None, message = msg \<rparr>"

definition ValidationRules :: "(string \<times> rules) list" where
  "ValidationRules =
   [ (''name'', \<lparr> required = True, minLength = Some 2, pattern = Some namePattern,
        customValidator = None,
        message = ''Name must contain only letters, spaces, hyphens, and apostrophes'' \<rparr>),
     (''email'', \<lparr> required = True, minLength = None, pattern = Some emailPattern,
        customValidator = None, message = ''Please enter a valid email address'' \<rparr>),
     (''phone'', \<lparr> required = True, minLength = None, pattern = Some phonePattern,
        customValidator = None,
        message = ''Please enter a valid phone number (minimum 10 digits)'' \<rparr>),
     (''address'', plainRule True 10 ''Address must be at least 10 characters''),
     (''about'', plainRule False 20 ''Professional summary should be at least 20 characters''),
     (''experience'', plainRule False 20 ''Experience should be at least 20 characters when provided''),
     (''education'', plainRule False 20 ''Education should be at least 20 characters when provided''),
     (''skills'', \<lparr> required = False, minLength = Some 5, pattern = None,
        customValidator = Some skillsValidator,
        message = ''Please enter at least 2 skills separated by commas when provided'' \<rparr>),
     (''strengths'', plainRule False 10 ''Strengths should be at least 10 characters when provided''),
     (''achievements'', plainRule False 10 ''Achievements should be at least 10 characters when provided''),
     (''projects'', plainRule False 10 ''Projects should be at least 10 characters when provided''),
     (''certificates'', plainRule False 10 ''Certificates should be at least 10 characters when provided''),
     (''custom-title'', plainRule False 2 ''Custom section title must be at least 2 characters''),
     (''custom-content'', plainRule False 5 ''Custom section content should be at least 5 characters when provided'') ]"

definition getFieldLabel :: "string \<Rightarrow> string" where
  "getFieldLabel fieldName =
     (case map_of
        [ (''name'', ''Full Name''), (''email'', ''Email''), (''phone'', ''Phone''),
          (''address'', ''Address''), (''experience'', ''Professional Experience''),
          (''education'', ''Education''), (''skills'', ''Skills''),
          (''strengths'', ''Strengths''), (''achievements'', ''Achievements''),
          (''projects'', ''Projects''), (''certificates'', ''Certificates''),
          (''custom-title'', ''Custom Section Title''),
          (''custom-content'', ''Custom Section Content'') ] fieldName
      of Some label \<Rightarrow> (if label = [] then fieldName else label) | None \<Rightarrow> fieldName)"

section \<open>The page\<close>

datatype error = TypeError | Error string

text \<open>
  A form field together with what the validation code touches around it: the class list
  of its enclosing \<open>.form-group\<close>, the text and class list of the group's
  \<open>.error-message\<close> element (\<open>None\<close> when there is none), and the field's
  \<open>aria-invalid\<close> attribute.
\<close>

record fieldElement =
  fieldValue :: string
  groupClasses :: "string list"
  errorElement :: "(string \<times> string list) option"
  ariaInvalid :: "string option"

text \<open>An element that \<open>populateTemplate\<close> fills in.\<close>

datatype nodeContent = TextContent string | InnerHTML string

record node =
  content :: nodeContent
  nodeStyle :: styleDecl
  nodeSrc :: string
  nodeAlt :: string
  nodeClasses :: "string list"

record messageContainer =
  msgText :: string
  msgClasses :: "string list"

record loadingIndicator =
  loadingText :: "string option"
  loadingClasses :: "string list"
  loadingAriaHidden :: "string option"

text \<open>
  The static page that \<open>cacheElements\<close> reads: the form fields and the checkboxes that
  exist, by id, and the \<open>src\<close> of the photo preview.
\<close>

record document =
  docFields :: "string \<rightharpoonup> fieldElement"
  docCheckboxes :: "string \<rightharpoonup> bool"
  docPhotoPreview :: string

text \<open>
  The state of the application: the \<open>ResumeBuilder\<close> object and the parts of the DOM
  that the code reads or writes.
  \<^item> \<open>elementsFields\<close> is \<open>ResumeBuilder.elements.fields\<close>, in key order; a field
    that \<open>getElementById\<close> did not find is \<open>None\<close> (\<open>null\<close>).
  \<^item> \<open>elementsCheckboxes\<close> holds the checkbox-valued properties of
    \<open>ResumeBuilder.elements\<close>, by property name, with their \<open>checked\<close> state
    (\<open>None\<close> for \<open>null\<close>); reading a property that is not listed gives
    \<open>undefined\<close>.
  \<^item> \<open>#message-container\<close>, \<open>#loading-indicator\<close> and \<open>#resumeForm\<close> are taken to
    exist: the code dereferences them without a check.
  \<^item> \<open>liveRegion\<close> is the text of \<open>#live-region\<close>, \<open>None\<close> if the element is absent.
  \<^item> \<open>templates\<close> and \<open>nodes\<close> are what \<open>document.getElementById\<close> finds for the
    template roots and for the elements inside them.
  \<^item> \<open>downloads\<close> lists the files written by \<open>pdf.save\<close>; \<open>lastGeneration\<close> is the
    template and name stored under the \<open>lastGeneration\<close> key of local storage.
  Timers (\<open>setTimeout\<close>) and scrolling are not modelled.
\<close>

record page =
  isGenerating :: bool
  currentTemplate :: string
  elementsFields :: "(string \<times> fieldElement option) list"
  elementsCheckboxes :: "(string \<times> bool option) list"
  photoPreviewSrc :: string
  messageBox :: messageContainer
  loading :: loadingIndicator
  formStyle :: styleDecl
  liveRegion :: "string option"
  templates :: "string \<rightharpoonup> template"
  nodes :: "string \<rightharpoonup> node"
  downloads :: "(string \<times> pdf) list"
  lastGeneration :: "(string \<times> string) option"

definition fieldNames :: "string list" where
  "fieldNames =
     [''name'', ''email'', ''phone'', ''address'', ''about'', ''experience'', ''education'',
      ''skills'', ''strengths'', ''achievements'', ''projects'', ''certificates'',
      ''custom-title'', ''custom-content'']"

definition cacheElements :: "document \<Rightarrow> page \<Rightarrow> page" where
  "cacheElements doc s =
     s\<lparr> elementsFields := map (\<lambda>fieldName. (fieldName, docFields doc fieldName)) fieldNames,
        elementsCheckboxes := [(''includePhoto'', docCheckboxes doc ''include-photo'')],
        photoPreviewSrc := docPhotoPreview doc \<rparr>"

subsection \<open>UI helpers\<close>

definition announceToScreenReader :: "string \<Rightarrow> page \<Rightarrow> page" where
  "announceToScreenReader msg s =
     (case liveRegion s of None \<Rightarrow> s | Some _ \<Rightarrow> s\<lparr> liveRegion := Some msg \<rparr>)"

definition showMessage :: "string \<Rightarrow> string \<Rightarrow> page \<Rightarrow> page" where
  \<comment> \<open>\<open>className = type\<close> replaces the class list, then \<open>hidden\<close> is removed\<close>
  "showMessage msg type s =
     s\<lparr> messageBox := \<lparr> msgText = msg, msgClasses = classList_remove ''hidden'' [type] \<rparr> \<rparr>"

definition showLoading :: "string \<Rightarrow> page \<Rightarrow> page" where
  "showLoading msg s =
     s\<lparr> loading :=
          \<lparr> loadingText = (case loadingText (loading s) of None \<Rightarrow> None | Some _ \<Rightarrow> Some msg),
            loadingClasses = classList_remove ''hidden'' (loadingClasses (loading s)),
            loadingAriaHidden = Some ''false'' \<rparr>,
        formStyle := (formStyle s)(''pointerEvents'' \<mapsto> Keyword ''none'', ''opacity'' \<mapsto> Keyword ''0.6'') \<rparr>"

definition hideLoading :: "page \<Rightarrow> page" where
  "hideLoading s =
     s\<lparr> loading :=
          (loading s)\<lparr> loadingClasses := classList_add ''hidden'' (loadingClasses (loading s)),
                       loadingAriaHidden := Some ''true'' \<rparr>,
        formStyle := (formStyle s)(''pointerEvents'' \<mapsto> Keyword ''auto'', ''opacity'' \<mapsto> Keyword ''1'') \<rparr>"

subsection \<open>Field validation\<close>

definition getField :: "page \<Rightarrow> string \<Rightarrow> fieldElement option" where
  \<comment> \<open>\<open>ResumeBuilder.elements.fields[fieldName]\<close>; \<open>None\<close> for \<open>null\<close> and \<open>undefined\<close>\<close>
  "getField s fieldName =
     (case map_of (elementsFields s) fieldName of None \<Rightarrow> None | Some el \<Rightarrow> el)"

definition updateField :: "string \<Rightarrow> (fieldElement \<Rightarrow> fieldElement) \<Rightarrow> page \<Rightarrow> page" where
  "updateField fieldName f s =
     s\<lparr> elementsFields :=
          map (\<lambda>(k, el). if k = fieldName then (k, map_option f el) else (k, el)) (elementsFields s) \<rparr>"

definition checkedOf :: "page \<Rightarrow> string \<Rightarrow> error + bool" where
  \<comment> \<open>\<open>ResumeBuilder.elements[prop].checked\<close>\<close>
  "checkedOf s prop =
     (case map_of (elementsCheckboxes s) prop of
        None \<Rightarrow> Inl TypeError
      | Some None \<Rightarrow> Inl TypeError
      | Some (Some b) \<Rightarrow> Inr b)"

definition isFieldRequired :: "string \<Rightarrow> page \<Rightarrow> error + bool" where
  "isFieldRequired fieldName s =
     (case map_of ValidationRules fieldName of
        None \<Rightarrow> Inr False
      | Some rules \<Rightarrow>
          if required rules then Inr True
          else if fieldName = ''experience'' then checkedOf s ''includeExperience''
          else if fieldName = ''projects'' then checkedOf s ''includeProjects''
          else if fieldName = ''certificates'' then checkedOf s ''includeCertificates''
          else if fieldName = ''custom-title'' \<or> fieldName = ''custom-content''
            then checkedOf s ''includeCustom''
          else Inr False)"

text \<open>
  The functions below are called for fields that exist and have rules; the enclosing
  \<open>.form-group\<close> of a field is taken to exist.
\<close>

definition clearFieldError :: "string \<Rightarrow> page \<Rightarrow> page" where
  "clearFieldError fieldName s =
     updateField fieldName
       (\<lambda>field.
          let field1 = field\<lparr> groupClasses := classList_remove ''error'' (groupClasses field),
                              errorElement := map_option (\<lambda>(txt, cl). (txt, classList_remove ''show'' cl))
                                                (errorElement field) \<rparr>
          in if (case map_of ValidationRules fieldName of None \<Rightarrow> True | Some rules \<Rightarrow> \<not> required rules)
                \<or> js_trim (fieldValue field) \<noteq> []
             then field1\<lparr> ariaInvalid := None \<rparr> else field1) s"

definition showFieldError :: "string \<Rightarrow> string \<Rightarrow> page \<Rightarrow> page" where
  "showFieldError fieldName msg s =
     announceToScreenReader (''Error in '' @ getFieldLabel fieldName @ '': '' @ msg)
       (updateField fieldName
          (\<lambda>field. field\<lparr> groupClasses := classList_remove ''success'' (classList_add ''error'' (groupClasses field)),
                           errorElement := map_option (\<lambda>(txt, cl). (msg, classList_add ''show'' cl))
                                             (errorElement field),
                           ariaInvalid := Some ''true'' \<rparr>) s)"

definition showFieldSuccess :: "string \<Rightarrow> page \<Rightarrow> page" where
  "showFieldSuccess fieldName s =
     updateField fieldName
       (\<lambda>field. field\<lparr> groupClasses := classList_remove ''error'' (classList_add ''success'' (groupClasses field)),
                        ariaInvalid := Some ''false'' \<rparr>) s"

fun showNat :: "nat \<Rightarrow> string" where
  \<comment> \<open>the decimal digits of a number, as a template literal prints it\<close>
  "showNat n =
     (if n < 10 then [char_of (48 + n)] else showNat (n div 10) @ [char_of (48 + n mod 10)])"

definition checkValue :: "string \<Rightarrow> rules \<Rightarrow> string \<Rightarrow> bool \<Rightarrow> page \<Rightarrow> bool \<times> page" where
  \<comment> \<open>the \<open>try\<close> block of \<open>validateField\<close> once \<open>isRequired\<close> is known\<close>
  "checkValue fieldName rules val isRequired s =
     (if isRequired \<and> val = [] then
        (False, showFieldError fieldName (getFieldLabel fieldName @ '' is required'') s)
      else if val = [] \<and> \<not> isRequired then (True, s)
      else if (case minLength rules of None \<Rightarrow> False | Some len \<Rightarrow> 0 < len \<and> length val < len) then
        (False, showFieldError fieldName
           (getFieldLabel fieldName @ '' must be at least ''
              @ showNat (case minLength rules of None \<Rightarrow> 0 | Some len \<Rightarrow> len) @ '' characters'') s)
      else if (case pattern rules of None \<Rightarrow> False | Some p \<Rightarrow> \<not> p val) then
        (False, showFieldError fieldName (message rules) s)
      else (case (case customValidator rules of None \<Rightarrow> None | Some cv \<Rightarrow> cv val) of
              Some customResult \<Rightarrow> (False, showFieldError fieldName customResult s)
            | None \<Rightarrow> (True, showFieldSuccess fieldName s)))"

definition validateField :: "string \<Rightarrow> page \<Rightarrow> bool \<times> page" where
  "validateField fieldName s =
     (case getField s fieldName of
        None \<Rightarrow> (True, s)
      | Some field \<Rightarrow>
          (case map_of ValidationRules fieldName of
             None \<Rightarrow> (True, s)
           | Some rules \<Rightarrow>
               let val = js_trim (fieldValue field);
                   s1 = clearFieldError fieldName s
               in (case isFieldRequired fieldName s1 of
                     Inl err \<Rightarrow> (False, showFieldError fieldName ''Validation error occurred'' s1)
                   | Inr isRequired \<Rightarrow> checkValue fieldName rules val isRequired s1)))"

definition validateStep :: "string \<Rightarrow> bool \<times> page \<Rightarrow> bool \<times> page" where
  \<comment> \<open>the callback of \<open>fieldNames.forEach\<close>, on the pair of \<open>isValid\<close> and the page\<close>
  "validateStep fieldName acc =
     (case validateField fieldName (snd acc) of
        (ok, s2) \<Rightarrow> (if \<not> ok then False else fst acc, s2))"

definition validateAllFields :: "page \<Rightarrow> bool \<times> page" where
  "validateAllFields s = fold validateStep (map fst (elementsFields s)) (True, s)"

section \<open>Form data and template population\<close>

text \<open>
  The object built by \<open>collectFormData\<close>; the fields carry the prefix \<open>fd\<close>.
  \<open>fdPhoto\<close> is \<open>None\<close> when the \<open>photo\<close> property is not set.
\<close>

record formData =
  fdName :: string
  fdEmail :: string
  fdPhone :: string
  fdAddress :: string
  fdAbout :: string
  fdExperience :: string
  fdEducation :: string
  fdSkills :: string
  fdStrengths :: string
  fdAchievements :: string
  fdProjects :: string
  fdCertificates :: string
  fdCustomTitle :: string
  fdCustomContent :: string
  fdTemplate :: string
  fdIncludePhoto :: bool
  fdPhoto :: "string option"

definition trimmedValue :: "page \<Rightarrow> string \<Rightarrow> string option" where
  \<comment> \<open>\<open>ResumeBuilder.elements.fields[fieldName].value.trim()\<close>; \<open>None\<close> when it throws\<close>
  "trimmedValue s fieldName = map_option (\<lambda>field. js_trim (fieldValue field)) (getField s fieldName)"

definition collectFormData :: "page \<Rightarrow> formData option" where
  "collectFormData s =
     do {
       name \<leftarrow> trimmedValue s ''name'';
       email \<leftarrow> trimmedValue s ''email'';
       phone \<leftarrow> trimmedValue s ''phone'';
       address \<leftarrow> trimmedValue s ''address'';
       about \<leftarrow> trimmedValue s ''about'';
       experience \<leftarrow> trimmedValue s ''experience'';
       education \<leftarrow> trimmedValue s ''education'';
       skills \<leftarrow> trimmedValue s ''skills'';
       strengths \<leftarrow> trimmedValue s ''strengths'';
       achievements \<leftarrow> trimmedValue s ''achievements'';
       projects \<leftarrow> trimmedValue s ''projects'';
       certificates \<leftarrow> trimmedValue s ''certificates'';
       customTitle \<leftarrow> trimmedValue s ''custom-title'';
       customContent \<leftarrow> trimmedValue s ''custom-content'';
       includePhoto \<leftarrow> (case checkedOf s ''includePhoto'' of Inl _ \<Rightarrow> None | Inr b \<Rightarrow> Some b);
       Some \<lparr> fdName = name, fdEmail = email, fdPhone = phone, fdAddress = address,
              fdAbout = about, fdExperience = experience, fdEducation = education,
              fdSkills = skills, fdStrengths = strengths, fdAchievements = achievements,
              fdProjects = projects, fdCertificates = certificates,
              fdCustomTitle = customTitle, fdCustomContent = customContent,
              fdTemplate = currentTemplate s, fdIncludePhoto = includePhoto,
              fdPhoto = (if includePhoto then Some (photoPreviewSrc s) else None) \<rparr>
     }"

text \<open>
  \<open>populateTemplate\<close> is a sequence of DOM writes; each one throws a \<open>TypeError\<close>
  when \<open>getElementById\<close> returned \<open>null\<close>. A step returns whether it completed, and
  the elements as it left them.
\<close>

type_synonym domStep = "(string \<rightharpoonup> node) \<Rightarrow> bool \<times> (string \<rightharpoonup> node)"

fun runSteps :: "domStep list \<Rightarrow> domStep" where
  "runSteps [] ns = (True, ns)"
| "runSteps (step # steps) ns =
     (case step ns of (True, ns1) \<Rightarrow> runSteps steps ns1 | (False, ns1) \<Rightarrow> (False, ns1))"

definition withNode :: "string \<Rightarrow> (node \<Rightarrow> node) \<Rightarrow> domStep" where
  "withNode ident f ns =
     (case ns ident of None \<Rightarrow> (False, ns) | Some n \<Rightarrow> (True, ns(ident \<mapsto> f n)))"

definition setTextContent :: "string \<Rightarrow> string \<Rightarrow> domStep" where
  "setTextContent ident txt = withNode ident (\<lambda>n. n\<lparr> content := TextContent txt \<rparr>)"

definition setInnerHTML :: "string \<Rightarrow> string \<Rightarrow> domStep" where
  "setInnerHTML ident html = withNode ident (\<lambda>n. n\<lparr> content := InnerHTML html \<rparr>)"

definition setDisplay :: "string \<Rightarrow> string \<Rightarrow> domStep" where
  "setDisplay ident v =
     withNode ident (\<lambda>n. n\<lparr> nodeStyle := (nodeStyle n)(''display'' \<mapsto> Keyword v) \<rparr>)"

definition newlinesToBr :: "string \<Rightarrow> string" where
  \<comment> \<open>\<open>str.replace(/\n/g, '<br>')\<close>\<close>
  "newlinesToBr str = concat (map (\<lambda>ch. if of_char ch = (10::nat) then ''<br>'' else [ch]) str)"

definition escapeHtml :: "string \<Rightarrow> string" where
  \<comment> \<open>the serialisation of a text node\<close>
  "escapeHtml str =
     concat (map (\<lambda>ch. if ch = CHR ''&'' then ''&amp;'' else if ch = CHR ''<'' then ''&lt;''
                        else if ch = CHR ''>'' then ''&gt;'' else [ch]) str)"

definition fillSection :: "string \<Rightarrow> string \<Rightarrow> string \<Rightarrow> domStep" where
  \<comment> \<open>the pattern shared by the about, experience, education, strengths, achievements,
      projects and certificates sections\<close>
  "fillSection key tmpl txt =
     (if js_trim txt \<noteq> [] then
        runSteps [ setInnerHTML (''pdf-'' @ key @ ''-'' @ tmpl) (newlinesToBr txt),
                   setDisplay (key @ ''-section-'' @ tmpl) ''block'' ]
      else setDisplay (key @ ''-section-'' @ tmpl) ''none'')"

definition fillPhoto :: "formData \<Rightarrow> domStep" where
  "fillPhoto fd ns =
     (let tmpl = fdTemplate fd; ident = ''pdf-photo-'' @ tmpl
      in if fdIncludePhoto fd \<and> (case fdPhoto fd of None \<Rightarrow> False | Some src \<Rightarrow> src \<noteq> []) then
           withNode ident
             (\<lambda>n. n\<lparr> nodeSrc := (case fdPhoto fd of None \<Rightarrow> [] | Some src \<Rightarrow> src),
                      nodeAlt := fdName fd @ [char_of (39::nat)] @ ''s profile photo'',
                      nodeStyle := (nodeStyle n)(''display'' \<mapsto> Keyword ''block'') \<rparr>) ns
         else
           let ns1 = (case ns ident of None \<Rightarrow> ns
                      | Some n \<Rightarrow> ns(ident \<mapsto> n\<lparr> nodeStyle := (nodeStyle n)(''display'' \<mapsto> Keyword ''none'') \<rparr>))
           in if tmpl = ''classic'' then
                (case ns1 ''classic-header'' of
                   None \<Rightarrow> (True, ns1)
                 | Some hdr \<Rightarrow>
                     if \<not> fdIncludePhoto fd
                     then (True, ns1(''classic-header'' \<mapsto>
                                   hdr\<lparr> nodeClasses := classList_add ''no-photo'' (nodeClasses hdr) \<rparr>))
                     else (True, ns1))
              else (True, ns1))"

definition fillSkills :: "string \<Rightarrow> string \<Rightarrow> domStep" where
  "fillSkills tmpl txt =
     (if js_trim txt \<noteq> [] then
        let skills = filter (\<lambda>skill. 0 < length skill) (map js_trim (split_on CHR '','' txt))
        in runSteps
             [ setInnerHTML (''pdf-skills-'' @ tmpl)
                 (concat (map (\<lambda>skill. ''<li>'' @ escapeHtml skill @ ''</li>'') skills)),
               setDisplay (''skills-section-'' @ tmpl) ''block'' ]
      else setDisplay (''skills-section-'' @ tmpl) ''none'')"

definition fillCustom :: "formData \<Rightarrow> domStep" where
  "fillCustom fd =
     (let tmpl = fdTemplate fd
      in if js_trim (fdCustomTitle fd) \<noteq> [] \<and> js_trim (fdCustomContent fd) \<noteq> [] then
           runSteps
             [ setTextContent (''pdf-custom-title-'' @ tmpl) (fdCustomTitle fd),
               setInnerHTML (''pdf-custom-content-'' @ tmpl) (newlinesToBr (fdCustomContent fd)),
               setDisplay (''custom-section-'' @ tmpl) ''block'' ]
         else setDisplay (''custom-section-'' @ tmpl) ''none'')"

definition populateSteps :: "formData \<Rightarrow> domStep list" where
  "populateSteps fd =
     (let tmpl = fdTemplate fd
      in [ setTextContent (''pdf-name-'' @ tmpl) (fdName fd),
           setTextContent (''pdf-address-'' @ tmpl) (fdAddress fd),
           setTextContent (''pdf-phone-'' @ tmpl) (fdPhone fd),
           setTextContent (''pdf-email-'' @ tmpl) (fdEmail fd),
           fillSection ''about'' tmpl (fdAbout fd),
           fillPhoto fd,
           fillSection ''experience'' tmpl (fdExperience fd),
           fillSection ''education'' tmpl (fdEducation fd),
           fillSkills tmpl (fdSkills fd),
           fillSection ''strengths'' tmpl (fdStrengths fd),
           fillSection ''achievements'' tmpl (fdAchievements fd),
           fillSection ''projects'' tmpl (fdProjects fd),
           fillSection ''certificates'' tmpl (fdCertificates fd),
           fillCustom fd ])"

definition populateTemplate :: "formData \<Rightarrow> page \<Rightarrow> error option \<times> page" where
  \<comment> \<open>the first component is the error thrown, if any\<close>
  "populateTemplate fd s =
     (case runSteps (populateSteps fd) (nodes s) of
        (True, ns) \<Rightarrow> (None, s\<lparr> nodes := ns \<rparr>)
      | (False, ns) \<Rightarrow>
          (Some (Error ''Failed to populate template with form data''), s\<lparr> nodes := ns \<rparr>))"

section \<open>DocumentAssembler: \<open>generatePDF\<close> and \<open>handleFormSubmission\<close>\<close>

text \<open>
  What the browser and html2canvas contribute to one generation cycle: the layout
  measurements of a template root, and the outcome of \<open>html2canvas\<close>, which resolves
  to a canvas or rejects with an error. Both are functions of the template root and of
  the elements inside it, as they are when the call is made. jsPDF and \<open>localStorage\<close>
  are taken not to throw.
\<close>

record html2canvasOptions =
  optScale :: real
  optUseCORS :: bool
  optAllowTaint :: bool
  optBackgroundColor :: string
  optHeight :: nat
  optWidth :: nat
  optScrollX :: nat
  optScrollY :: nat
  optLogging :: bool

record env =
  scrollHeight :: "(string \<rightharpoonup> node) \<Rightarrow> template \<Rightarrow> nat"
  offsetWidth :: "(string \<rightharpoonup> node) \<Rightarrow> template \<Rightarrow> nat"
  html2canvas :: "(string \<rightharpoonup> node) \<Rightarrow> template \<Rightarrow> html2canvasOptions \<Rightarrow> error + canvas"

definition templateId :: "formData \<Rightarrow> string" where
  "templateId fd = ''pdf-'' @ fdTemplate fd"

definition updateTemplate :: "string \<Rightarrow> (template \<Rightarrow> template) \<Rightarrow> page \<Rightarrow> page" where
  "updateTemplate ident f s =
     (case templates s ident of
        None \<Rightarrow> s
      | Some t \<Rightarrow> s\<lparr> templates := (templates s)(ident \<mapsto> f t) \<rparr>)"

definition showTemplate :: "template \<Rightarrow> template" where
  "showTemplate t =
     t\<lparr> style := (style t)
          (''display'' \<mapsto> Keyword ''block'', ''position'' \<mapsto> Keyword ''absolute'',
           ''left'' \<mapsto> Keyword ''-9999px'', ''top'' \<mapsto> Keyword ''0'') \<rparr>"

definition hideTemplate :: "template \<Rightarrow> template" where
  "hideTemplate t = t\<lparr> style := (style t)(''display'' \<mapsto> Keyword ''none'') \<rparr>"

definition generatePDF_begin :: "formData \<Rightarrow> page \<Rightarrow> error option \<times> page" where
  \<comment> \<open>from the start of the \<open>try\<close> block to \<open>await waitForResources()\<close>\<close>
  "generatePDF_begin fd s =
     (let s1 = showLoading ''Generating your resume...'' (s\<lparr> isGenerating := True \<rparr>)
      in case populateTemplate fd s1 of
           (Some err, s2) \<Rightarrow> (Some err, s2)
         | (None, s2) \<Rightarrow>
             (case templates s2 (templateId fd) of
                None \<Rightarrow> (Some (Error (''Template '' @ fdTemplate fd @ '' not found'')), s2)
              | Some templateElement \<Rightarrow> (None, updateTemplate (templateId fd) showTemplate s2)))"

definition generatePDF_fit :: "env \<Rightarrow> formData \<Rightarrow> page \<Rightarrow> page" where
  \<comment> \<open>\<open>adjustTemplateForContent(templateElement)\<close>, up to its 150 ms wait\<close>
  "generatePDF_fit e fd s =
     updateTemplate (templateId fd) (adjustTemplateForContent (scrollHeight e (nodes s))) s"

definition rasterize :: "env \<Rightarrow> formData \<Rightarrow> page \<Rightarrow> error + canvas" where
  \<comment> \<open>the call of \<open>html2canvas\<close> with its options; \<open>templateElement\<close> is found again by
      its id (it exists once \<open>generatePDF_begin\<close> has completed)\<close>
  "rasterize e fd s =
     (case templates s (templateId fd) of
        None \<Rightarrow> Inl TypeError
      | Some templateElement \<Rightarrow>
          html2canvas e (nodes s) templateElement
            \<lparr> optScale = 1.5, optUseCORS = True, optAllowTaint = True,
              optBackgroundColor = ''#ffffff'',
              optHeight = scrollHeight e (nodes s) templateElement,
              optWidth = offsetWidth e (nodes s) templateElement,
              optScrollX = 0, optScrollY = 0, optLogging = False \<rparr>)"

definition placeOnPages :: "canvas \<Rightarrow> real \<Rightarrow> real \<Rightarrow> pdf option" where
  \<comment> \<open>the new document and the single-page or multi-page placement; \<open>generatePDF\<close> has
      \<open>pageWidth = 210\<close> and \<open>pageHeight = 297\<close>\<close>
  "placeOnPages c pageWidth pageHeight =
     (let doc = newPDF;
          imgWidth = pageWidth;
          imgHeight = scaledHeight c imgWidth
      in if js_le imgHeight (Fin pageHeight)
         then Some (addImage \<lparr> imageData = CanvasData c, imgFormat = ''PNG'',
                               imgX = 0, imgY = 0, imgW = Fin imgWidth, imgH = imgHeight \<rparr> doc)
         else handleMultiPagePDF doc c pageWidth pageHeight)"

definition resumeFileName :: "string \<Rightarrow> string" where
  \<comment> \<open>\<open>name.replace(/[^a-zA-Z0-9]/g, '_') + '_Resume.pdf'\<close>\<close>
  "resumeFileName name =
     map (\<lambda>ch. if isLetter ch \<or> isDigit ch then ch else CHR ''_'') name @ ''_Resume.pdf''"

definition saveSuccessfulGeneration :: "formData \<Rightarrow> page \<Rightarrow> page" where
  "saveSuccessfulGeneration fd s = s\<lparr> lastGeneration := Some (fdTemplate fd, fdName fd) \<rparr>"

definition generatePDF_assemble :: "formData \<Rightarrow> canvas \<Rightarrow> page \<Rightarrow> page option" where
  \<comment> \<open>from \<open>// Hide template\<close> to the end of the \<open>try\<close> block; \<open>None\<close> when the
      page loop does not end\<close>
  "generatePDF_assemble fd c s =
     (let s1 = updateTemplate (templateId fd) hideTemplate s
      in case placeOnPages c 210 297 of
           None \<Rightarrow> None
         | Some doc \<Rightarrow>
             let fileName = resumeFileName (fdName fd);
                 s2 = s1\<lparr> downloads := downloads s1 @ [(fileName, doc)] \<rparr>;
                 s3 = showMessage (''Resume generated successfully! Downloaded as '' @ fileName)
                        ''success'' s2;
                 s4 = announceToScreenReader ''Resume PDF generated and downloaded successfully'' s3
             in Some (saveSuccessfulGeneration fd s4))"

definition generatePDF_catch :: "page \<Rightarrow> page" where
  "generatePDF_catch s = showMessage ''Failed to generate PDF. Please try again.'' ''error'' s"

definition generatePDF_finally :: "page \<Rightarrow> page" where
  "generatePDF_finally s = hideLoading (s\<lparr> isGenerating := False \<rparr>)"

definition generatePDF_end :: "error option \<times> page \<Rightarrow> error option \<times> page" where
  \<comment> \<open>how the \<open>try\<close> statement completes: the \<open>catch\<close> clause rethrows, \<open>finally\<close> always runs\<close>
  "generatePDF_end r =
     (case r of
        (None, s) \<Rightarrow> (None, generatePDF_finally s)
      | (Some err, s) \<Rightarrow> (Some err, generatePDF_finally (generatePDF_catch s)))"

text \<open>
  The cycle is suspended three times: at \<open>await waitForResources()\<close>, at the 150 ms wait
  inside \<open>adjustTemplateForContent\<close>, and while \<open>html2canvas\<close> works. The functions
  below are the rest of \<open>generatePDF\<close> from each of these points on. The result is
  \<open>None\<close> when the cycle never ends, and otherwise the error thrown (if any) and the
  final state.
\<close>

definition afterRaster :: "formData \<Rightarrow> error + canvas \<Rightarrow> page \<Rightarrow> (error option \<times> page) option" where
  "afterRaster fd outcome s =
     (case outcome of
        Inl err \<Rightarrow> Some (generatePDF_end (Some err, s))
      | Inr c \<Rightarrow>
          (case generatePDF_assemble fd c s of
             None \<Rightarrow> None
           | Some s1 \<Rightarrow> Some (generatePDF_end (None, s1))))"

definition afterReflow :: "env \<Rightarrow> formData \<Rightarrow> page \<Rightarrow> (error option \<times> page) option" where
  "afterReflow e fd s = afterRaster fd (rasterize e fd s) s"

definition afterResources :: "env \<Rightarrow> formData \<Rightarrow> page \<Rightarrow> (error option \<times> page) option" where
  "afterResources e fd s = afterReflow e fd (generatePDF_fit e fd s)"

definition generatePDF :: "env \<Rightarrow> formData \<Rightarrow> page \<Rightarrow> (error option \<times> page) option" where
  "generatePDF e fd s =
     (case generatePDF_begin fd s of
        (Some err, s1) \<Rightarrow> Some (generatePDF_end (Some err, s1))
      | (None, s1) \<Rightarrow> afterResources e fd s1)"

definition handleFormSubmission_catch :: "page \<Rightarrow> page" where
  "handleFormSubmission_catch s =
     hideLoading
       (showMessage ''An error occurred while generating your resume. Please try again.'' ''error'' s)"

text \<open>
  The whole handler, run to its end; \<open>None\<close> when it never ends. After a failed
  validation \<open>scrollToFirstError\<close> only scrolls and sets the focus.
\<close>

definition handleFormSubmission :: "env \<Rightarrow> page \<Rightarrow> page option" where
  "handleFormSubmission e s =
     (if isGenerating s then Some (showMessage ''PDF generation already in progress'' ''warning'' s)
      else
        case validateAllFields s of
          (False, s1) \<Rightarrow>
            Some (showMessage ''Please fix the errors above before generating your resume'' ''error'' s1)
        | (True, s1) \<Rightarrow>
            (case collectFormData s1 of
               None \<Rightarrow> Some (showMessage ''Failed to collect form data'' ''error'' s1)
             | Some fd \<Rightarrow>
                 (case generatePDF e fd s1 of
                    None \<Rightarrow> None
                  | Some (None, s2) \<Rightarrow> Some s2
                  | Some (Some err, s2) \<Rightarrow> Some (handleFormSubmission_catch s2))))"

section \<open>Auxiliary predicates\<close>

definition allPresent :: "(string \<rightharpoonup> node) \<Rightarrow> bool" where
  \<comment> \<open>every element that is looked up by id exists\<close>
  "allPresent ns = (\<forall>ident. ns ident \<noteq> None)"

definition completes :: "domStep \<Rightarrow> bool" where
  \<comment> \<open>the step does not throw when every element exists, and removes none\<close>
  "completes step = (\<forall>ns. allPresent ns \<longrightarrow> fst (step ns) \<and> allPresent (snd (step ns)))"

section \<open>Concrete inputs\<close>

text \<open>
  A small page on which the functions above can be run: every form field exists and
  holds the same text, every element that \<open>populateTemplate\<close> looks up exists, and
  there is one template, \<open>#pdf-modern\<close>, initially hidden.
\<close>

definition sampleField :: fieldElement where
  "sampleField =
     \<lparr> fieldValue = ''Ten years of compiler work'', groupClasses = [''form-group''],
       errorElement = Some ([], [''error-message'']), ariaInvalid = None \<rparr>"

definition sampleDocument :: document where
  "sampleDocument =
     \<lparr> docFields = (\<lambda>ident. Some sampleField),
       docCheckboxes = [''include-photo'' \<mapsto> False],
       docPhotoPreview = ''data:,'' \<rparr>"

definition sampleNode :: node where
  "sampleNode =
     \<lparr> content = TextContent [], nodeStyle = Map.empty, nodeSrc = [], nodeAlt = [],
       nodeClasses = [] \<rparr>"

definition sampleTemplate :: template where
  "sampleTemplate =
     \<lparr> classList = [''resume-template''], style = [''display'' \<mapsto> Keyword ''none''],
       contentBlocks = [Map.empty], photoStyle = Some Map.empty \<rparr>"

definition measuring :: "nat \<Rightarrow> template \<Rightarrow> nat" where
  \<comment> \<open>a layout in which the content of the template is \<open>contentHeight\<close> pixels high\<close>
  "measuring contentHeight t = contentHeight"

definition emptyPage :: page where
  "emptyPage =
     \<lparr> isGenerating = False, currentTemplate = ''modern'',
       elementsFields = [], elementsCheckboxes = [], photoPreviewSrc = [],
       messageBox = \<lparr> msgText = [], msgClasses = [''hidden''] \<rparr>,
       loading = \<lparr> loadingText = Some [], loadingClasses = [''hidden''],
                   loadingAriaHidden = Some ''true'' \<rparr>,
       formStyle = Map.empty, liveRegion = Some [],
       templates = [''pdf-modern'' \<mapsto> sampleTemplate],
       nodes = (\<lambda>ident. Some sampleNode),
       downloads = [], lastGeneration = None \<rparr>"

definition samplePage :: page where
  "samplePage = cacheElements sampleDocument emptyPage"

definition sampleData :: formData where
  "sampleData =
     \<lparr> fdName = ''Ada Lovelace'', fdEmail = ''ada@example.org'', fdPhone = ''+44 20 7946 0000'',
       fdAddress = ''12 St James Square, London'', fdAbout = [], fdExperience = [],
       fdEducation = [], fdSkills = [], fdStrengths = [], fdAchievements = [],
       fdProjects = [], fdCertificates = [], fdCustomTitle = [], fdCustomContent = [],
       fdTemplate = ''modern'', fdIncludePhoto = False, fdPhoto = None \<rparr>"

definition rejectingEnv :: env where
  \<comment> \<open>html2canvas rejects\<close>
  "rejectingEnv =
     \<lparr> scrollHeight = (\<lambda>ns t. 1000), offsetWidth = (\<lambda>ns t. 794),
       html2canvas = (\<lambda>ns t opts. Inl (Error ''canvas error'')) \<rparr>"

definition renderingEnv :: env where
  \<comment> \<open>html2canvas renders at the requested size times the scale\<close>
  "renderingEnv =
     \<lparr> scrollHeight = (\<lambda>ns t. 1000), offsetWidth = (\<lambda>ns t. 794),
       html2canvas = (\<lambda>ns t opts. Inr \<lparr> width = nat \<lfloor>optScale opts * real (optWidth opts)\<rfloor>,
                                         height = nat \<lfloor>optScale opts * real (optHeight opts)\<rfloor> \<rparr>) \<rparr>"

section \<open>Properties of the paginator\<close>

lemma pageLoop_fin:
  "page \<le> nat k \<Longrightarrow>
   pageLoop c iw ph (Fin (of_int k)) page doc =
     Some (fold (pageBody c iw ph (Fin (of_int k))) [page..<nat k] doc)"
proof (induction "nat k - page" arbitrary: page doc)
  case 0
  then have "page = nat k" by simp
  then have "\<not> (of_nat page < (of_int k :: real))"
    by (metis int_nat_eq less_irrefl of_int_0 of_int_of_nat_eq of_int_le_iff order_less_le)
  then show ?case using \<open>page = nat k\<close> by (subst pageLoop.simps) simp
next
  case (Suc d)
  then have lt: "page < nat k" by simp
  then have "(of_nat page :: real) < of_int k"
    by (metis of_int_of_nat_eq of_int_less_iff zless_nat_eq_int_zless)
  moreover have "[page..<nat k] = page # [Suc page..<nat k]"
    using lt by (simp add: upt_conv_Cons)
  moreover have "pageLoop c iw ph (Fin (of_int k)) (Suc page) (pageBody c iw ph (Fin (of_int k)) page doc)
     = Some (fold (pageBody c iw ph (Fin (of_int k))) [Suc page..<nat k] (pageBody c iw ph (Fin (of_int k)) page doc))"
    using Suc lt by (intro Suc.hyps(1)) auto
  ultimately show ?case by (subst pageLoop.simps) simp
qed

lemma addImage_addPage: "addImage im (addPage doc) = doc @ [[im]]"
  by (simp add: addImage_def addPage_def butlast_append)

lemma fold_pageBody_new:
  "fold (pageBody c iw ph T) [0..<Suc n] newPDF =
     map (\<lambda>i. [\<lparr> imageData = PageData (pageSlice c T i), imgFormat = ''PNG'',
                imgX = 0, imgY = 0, imgW = Fin iw, imgH = Fin ph \<rparr>]) [0..<Suc n]"
proof (induction n)
  case 0
  show ?case by (simp add: pageBody_def addImage_def newPDF_def)
next
  case (Suc n)
  have "fold (pageBody c iw ph T) [0..<Suc (Suc n)] newPDF
        = pageBody c iw ph T (Suc n) (fold (pageBody c iw ph T) [0..<Suc n] newPDF)"
    by simp
  also have "\<dots> = map (\<lambda>i. [\<lparr> imageData = PageData (pageSlice c T i), imgFormat = ''PNG'',
                imgX = 0, imgY = 0, imgW = Fin iw, imgH = Fin ph \<rparr>]) [0..<Suc (Suc n)]"
    unfolding Suc.IH by (simp add: pageBody_def addImage_addPage)
  finally show ?case .
qed


lemma scaledHeight_fin:
  "0 < width c \<Longrightarrow> scaledHeight c pw = Fin (of_nat (height c) * pw / of_nat (width c))"
  by (simp add: scaledHeight_def)

lemma totalPagesOf_fin:
  "0 < width c \<Longrightarrow> pageHeight \<noteq> 0 \<Longrightarrow>
   totalPagesOf c pw pageHeight =
     Fin (of_int \<lceil>of_nat (height c) * pw / of_nat (width c) / pageHeight\<rceil>)"
  by (simp add: totalPagesOf_def scaledHeight_fin)

lemma pageSlice_fin:
  "0 < n \<Longrightarrow>
   pageSlice c (Fin (of_nat n)) i =
     \<lparr> pcWidth = width c, pcHeight = toUnsignedLong (Fin (of_nat (height c) / of_nat n)),
       source = c, sourceX = Fin 0,
       sourceY = Fin (of_nat i * (of_nat (height c) / of_nat n)),
       sourceWidth = Fin (of_nat (width c)),
       sourceHeight = Fin (of_nat (height c) / of_nat n),
       destX = Fin 0, destY = Fin 0,
       destWidth = Fin (of_nat (width c)),
       destHeight = Fin (of_nat (height c) / of_nat n) \<rparr>"
  by (simp add: pageSlice_def Let_def)

lemma handleMultiPagePDF_fin:
  assumes "0 < width c" and "pageHeight \<noteq> 0"
    and "0 < \<lceil>of_nat (height c) * pw / of_nat (width c) / pageHeight\<rceil>"
  shows "handleMultiPagePDF newPDF c pw pageHeight =
     Some (map (\<lambda>i. [\<lparr> imageData = PageData (pageSlice c (totalPagesOf c pw pageHeight) i),
                        imgFormat = ''PNG'', imgX = 0, imgY = 0,
                        imgW = Fin pw, imgH = Fin pageHeight \<rparr>])
            [0..<nat \<lceil>of_nat (height c) * pw / of_nat (width c) / pageHeight\<rceil>])"
proof -
  let ?k = "\<lceil>of_nat (height c) * pw / of_nat (width c) / pageHeight\<rceil>"
  obtain m where m: "nat ?k = Suc m"
    using assms(3) by (metis Suc_pred zero_less_nat_eq)
  have T: "totalPagesOf c pw pageHeight = Fin (of_int ?k)"
    using assms by (simp add: totalPagesOf_fin)
  have "handleMultiPagePDF newPDF c pw pageHeight =
          Some (fold (pageBody c pw pageHeight (Fin (of_int ?k))) [0..<nat ?k] newPDF)"
    unfolding handleMultiPagePDF_def Let_def T by (rule pageLoop_fin) simp
  then show ?thesis
    unfolding T m fold_pageBody_new .
qed

lemma handleMultiPagePDF_slices:
  assumes "0 < width c" and "pageHeight \<noteq> 0"
    and "0 < \<lceil>real (height c) * pageWidth / real (width c) / pageHeight\<rceil>"
  shows "let totalPages = nat \<lceil>real (height c) * pageWidth / real (width c) / pageHeight\<rceil>
         in totalPagesOf c pageWidth pageHeight = Fin (real totalPages)
          \<and> handleMultiPagePDF newPDF c pageWidth pageHeight =
              Some (map (\<lambda>i. [\<lparr> imageData = PageData
                    \<lparr> pcWidth = width c,
                      pcHeight = toUnsignedLong (Fin (real (height c) / real totalPages)),
                      source = c, sourceX = Fin 0,
                      sourceY = Fin (real i * (real (height c) / real totalPages)),
                      sourceWidth = Fin (real (width c)),
                      sourceHeight = Fin (real (height c) / real totalPages),
                      destX = Fin 0, destY = Fin 0,
                      destWidth = Fin (real (width c)),
                      destHeight = Fin (real (height c) / real totalPages) \<rparr>,
                    imgFormat = ''PNG'', imgX = 0, imgY = 0,
                    imgW = Fin pageWidth, imgH = Fin pageHeight \<rparr>]) [0..<totalPages])"
proof -
  let ?k = "\<lceil>real (height c) * pageWidth / real (width c) / pageHeight\<rceil>"
  have k: "0 < ?k" by (rule assms(3))
  then have nk: "real (nat ?k) = of_int ?k"
    by simp
  have T: "totalPagesOf c pageWidth pageHeight = Fin (real (nat ?k))"
    unfolding nk using assms(1,2) by (rule totalPagesOf_fin)
  have H: "handleMultiPagePDF newPDF c pageWidth pageHeight =
     Some (map (\<lambda>i. [\<lparr> imageData = PageData (pageSlice c (Fin (real (nat ?k))) i),
                        imgFormat = ''PNG'', imgX = 0, imgY = 0,
                        imgW = Fin pageWidth, imgH = Fin pageHeight \<rparr>]) [0..<nat ?k])"
    using handleMultiPagePDF_fin [OF assms(1,2) k] unfolding T .
  have pos: "0 < nat ?k" using k by simp
  show ?thesis
    unfolding Let_def T H pageSlice_fin [OF pos] by (rule conjI; rule refl)
qed

text \<open>
  Claim C1. For a bitmap of positive width whose scaled height
  \<open>pageWidth * height / width\<close> exceeds the page height, \<open>handleMultiPagePDF\<close> returns;
  it computes \<open>totalPages = ceil(scaledHeight / pageHeight)\<close> and the document it
  leaves has one page per index \<open>i\<close> in \<open>[0, totalPages)\<close>, in ascending order, page
  \<open>i\<close> holding the band with \<open>sourceY = i * (height / totalPages)\<close> and
  \<open>sourceHeight = height / totalPages\<close>, placed at the full page width and height.
\<close>

theorem multi_page_slices:
  assumes "0 < width c" and "0 < pageWidth" and "0 < pageHeight"
    and "pageHeight < real (height c) * pageWidth / real (width c)"
  shows "let totalPages = nat \<lceil>real (height c) * pageWidth / real (width c) / pageHeight\<rceil>
         in totalPagesOf c pageWidth pageHeight = Fin (real totalPages)
          \<and> handleMultiPagePDF newPDF c pageWidth pageHeight =
              Some (map (\<lambda>i. [\<lparr> imageData = PageData
                    \<lparr> pcWidth = width c,
                      pcHeight = toUnsignedLong (Fin (real (height c) / real totalPages)),
                      source = c, sourceX = Fin 0,
                      sourceY = Fin (real i * (real (height c) / real totalPages)),
                      sourceWidth = Fin (real (width c)),
                      sourceHeight = Fin (real (height c) / real totalPages),
                      destX = Fin 0, destY = Fin 0,
                      destWidth = Fin (real (width c)),
                      destHeight = Fin (real (height c) / real totalPages) \<rparr>,
                    imgFormat = ''PNG'', imgX = 0, imgY = 0,
                    imgW = Fin pageWidth, imgH = Fin pageHeight \<rparr>]) [0..<totalPages])"
proof -
  have "1 < real (height c) * pageWidth / real (width c) / pageHeight"
    using assms(3,4)
      less_divide_eq_1_pos [of pageHeight "real (height c) * pageWidth / real (width c)"]
    by blast
  then have "0 < \<lceil>real (height c) * pageWidth / real (width c) / pageHeight\<rceil>"
    by (simp add: less_ceiling_iff)
  moreover have "pageHeight \<noteq> 0" using assms(3) by simp
  ultimately show ?thesis
    using handleMultiPagePDF_slices [of c pageHeight pageWidth] assms(1) by blast
qed

theorem multi_page_slices_witness:
  "(0::nat) < width \<lparr>width = 210, height = 600\<rparr> \<and> (0::real) < 210 \<and> (0::real) < 297
   \<and> (297::real) < real (height \<lparr>width = 210, height = 600\<rparr>) * 210
                   / real (width \<lparr>width = 210, height = 600\<rparr>)
   \<and> totalPagesOf \<lparr>width = 210, height = 600\<rparr> 210 297 = Fin 3
   \<and> (\<exists>doc. handleMultiPagePDF newPDF \<lparr>width = 210, height = 600\<rparr> 210 297 = Some doc
         \<and> length doc = 3
         \<and> map sourceY (slicesOf doc) = [Fin 0, Fin 200, Fin 400]
         \<and> map sourceHeight (slicesOf doc) = [Fin 200, Fin 200, Fin 200])"
  using multi_page_slices [of "\<lparr>width = 210, height = 600\<rparr>" 210 297]
  by (simp add: Let_def upt_rec numeral_eq_Suc slicesOf_def)

lemma foldl_js_plus_replicate:
  "foldl js_plus (Fin b) (replicate n (Fin a)) = Fin (b + real n * a)"
  by (induction n arbitrary: b) (simp_all add: algebra_simps)

lemma slicesOf_pages:
  "slicesOf (map (\<lambda>i. [\<lparr> imageData = PageData (f i), imgFormat = fmt, imgX = x0, imgY = y0,
                           imgW = w0, imgH = h0 \<rparr>]) xs) = map f xs"
  by (induction xs) (simp_all add: slicesOf_def)

lemma toUnsignedLong_nat: "n < 2 ^ 32 \<Longrightarrow> toUnsignedLong (Fin (real n)) = n"
proof -
  assume n: "n < 2 ^ 32"
  have "js_trunc (real n) = int n" by (simp add: js_trunc_def)
  moreover have "int n mod 2 ^ 32 = int n"
    using n by (simp add: zmod_int [symmetric] del: zmod_int)
  ultimately show ?thesis by simp
qed

lemma paginate_10_by_99:
  "handleMultiPagePDF newPDF \<lparr>width = 10, height = 99\<rparr> 210 297 =
     Some (map (\<lambda>i. [\<lparr> imageData = PageData
                    \<lparr> pcWidth = 10, pcHeight = 14,
                      source = \<lparr>width = 10, height = 99\<rparr>, sourceX = Fin 0,
                      sourceY = Fin (real i * (99 / 7)),
                      sourceWidth = Fin 10, sourceHeight = Fin (99 / 7),
                      destX = Fin 0, destY = Fin 0,
                      destWidth = Fin 10, destHeight = Fin (99 / 7) \<rparr>,
                    imgFormat = ''PNG'', imgX = 0, imgY = 0,
                    imgW = Fin 210, imgH = Fin 297 \<rparr>]) [0..<7])"
  using handleMultiPagePDF_slices [of "\<lparr>width = 10, height = 99\<rparr>" 297 210]
  by (simp add: Let_def js_trunc_def)

text \<open>
  Claim C8 as stated fails on the code. A canvas of 10 by 99 pixels has a scaled height
  of exactly 7 page heights, but 99 / 7 is not a whole number of pixels: each of the 7
  page canvases gets the truncated height 14, so the pages hold 98 of the 99 rows of the
  bitmap.
\<close>

theorem fractional_band_counterexample:
  "real (height \<lparr>width = 10, height = 99\<rparr>) * 210 / real (width \<lparr>width = 10, height = 99\<rparr>)
     = real 7 * 297
   \<and> handleMultiPagePDF newPDF \<lparr>width = 10, height = 99\<rparr> 210 297 \<noteq> None
   \<and> map sourceHeight (slicesOf (the (handleMultiPagePDF newPDF \<lparr>width = 10, height = 99\<rparr> 210 297)))
       = replicate 7 (Fin (99 / 7))
   \<and> map pcHeight (slicesOf (the (handleMultiPagePDF newPDF \<lparr>width = 10, height = 99\<rparr> 210 297)))
       = replicate 7 14
   \<and> sum_list (map pcHeight
         (slicesOf (the (handleMultiPagePDF newPDF \<lparr>width = 10, height = 99\<rparr> 210 297)))) = 98
   \<and> sum_list (map pcHeight
         (slicesOf (the (handleMultiPagePDF newPDF \<lparr>width = 10, height = 99\<rparr> 210 297))))
       \<noteq> height \<lparr>width = 10, height = 99\<rparr>"
  unfolding paginate_10_by_99 option.sel slicesOf_pages
  by (simp add: comp_def map_replicate_const sum_list_replicate)

text \<open>
  Claim C8, amended. When the scaled height is exactly \<open>k\<close> page heights, \<open>k > 1\<close>, and
  \<open>k\<close> divides the pixel height of the bitmap, the paginator produces \<open>k\<close> pages and
  \<open>k\<close> slices; slice \<open>i\<close> has the whole-number height \<open>height / k\<close>, which is also
  the height of its page canvas, and offset \<open>i * (height / k)\<close>; the offsets increase
  strictly, each slice starts where the previous one ends, the heights add up to the
  height of the bitmap, and the last slice ends at the height of the bitmap. The page
  geometry is a pair of whole numbers, as in \<open>generatePDF\<close> (210 by 297), and
  \<open>height * pageWidth\<close> is below \<open>2^53\<close>, so every number the code computes here is
  an integer that a double holds exactly.
\<close>

theorem exact_multiple_partition:
  assumes "0 < width c" and "height c < 2 ^ 32" and "0 < pw" and "0 < ph" and "1 < k"
    and "real (height c) * real pw / real (width c) = real k * real ph"
    and "k dvd height c" and "height c * pw < 2 ^ 53"
  shows "\<exists>doc. handleMultiPagePDF newPDF c (real pw) (real ph) = Some doc
           \<and> length doc = k
           \<and> length (slicesOf doc) = k
           \<and> (\<forall>i<k. sourceHeight (slicesOf doc ! i) = Fin (real (height c div k))
                    \<and> sourceY (slicesOf doc ! i) = Fin (real (i * (height c div k)))
                    \<and> destHeight (slicesOf doc ! i) = Fin (real (height c div k))
                    \<and> pcHeight (slicesOf doc ! i) = height c div k
                    \<and> pcWidth (slicesOf doc ! i) = width c)
           \<and> (\<forall>i j. i < j \<and> j < k \<longrightarrow>
                    js_less (sourceY (slicesOf doc ! i)) (sourceY (slicesOf doc ! j)))
           \<and> (\<forall>i. Suc i < k \<longrightarrow>
                    js_plus (sourceY (slicesOf doc ! i)) (sourceHeight (slicesOf doc ! i))
                      = sourceY (slicesOf doc ! Suc i))
           \<and> js_sum (map sourceHeight (slicesOf doc)) = Fin (real (height c))
           \<and> sum_list (map pcHeight (slicesOf doc)) = height c
           \<and> js_plus (sourceY (slicesOf doc ! (k - 1))) (sourceHeight (slicesOf doc ! (k - 1)))
               = Fin (real (height c))"
proof -
  let ?sc = "real (height c) * real pw / real (width c)"
  let ?q = "height c div k"
  have kpos: "0 < k" using assms(5) by simp
  have phpos: "0 < real ph" using assms(4) by simp
  have ratio: "?sc / real ph = real k"
    using phpos assms(6) by simp
  have ceil: "nat \<lceil>?sc / real ph\<rceil> = k"
    unfolding ratio by simp
  have hq: "height c = k * ?q" using assms(7) by simp
  have div: "real (height c) / real k = real ?q"
    using kpos by (subst hq) simp
  have qpos: "0 < ?q"
  proof (rule ccontr)
    assume "\<not> 0 < ?q"
    then have "height c = 0" using hq by simp
    then have "?sc = 0" by simp
    then show False using assms(6) phpos kpos by simp
  qed
  have qlt: "?q < 2 ^ 32"
    using assms(2) div_le_dividend [of "height c" k] by linarith
  have pc: "toUnsignedLong (Fin (real ?q)) = ?q"
    using qlt by (rule toUnsignedLong_nat)
  define sl where "sl = (\<lambda>i::nat.
       \<lparr> pcWidth = width c, pcHeight = ?q,
         source = c, sourceX = Fin 0, sourceY = Fin (real i * real ?q),
         sourceWidth = Fin (real (width c)), sourceHeight = Fin (real ?q),
         destX = Fin 0, destY = Fin 0, destWidth = Fin (real (width c)),
         destHeight = Fin (real ?q) \<rparr>)"
  define doc where "doc = map (\<lambda>i. [\<lparr> imageData = PageData (sl i), imgFormat = ''PNG'',
       imgX = 0, imgY = 0, imgW = Fin (real pw), imgH = Fin (real ph) \<rparr>]) [0..<k]"
  have "0 < \<lceil>?sc / real ph\<rceil>" unfolding ratio using kpos by simp
  then have run: "handleMultiPagePDF newPDF c (real pw) (real ph) = Some doc"
    using handleMultiPagePDF_slices [of c "real ph" "real pw"] assms(1) phpos
    unfolding Let_def ceil div pc doc_def sl_def by simp
  have sl: "slicesOf doc = map sl [0..<k]"
    unfolding doc_def by (rule slicesOf_pages)
  have nth: "slicesOf doc ! i = sl i" if "i < k" for i
    using that by (simp add: sl)
  have heights: "map sourceHeight (slicesOf doc) = replicate k (Fin (real ?q))"
    unfolding sl by (simp add: sl_def comp_def map_replicate_const)
  have sum: "js_sum (map sourceHeight (slicesOf doc)) = Fin (real (height c))"
    unfolding heights js_sum_def foldl_js_plus_replicate by (subst (2) hq) simp
  have pcs: "map pcHeight (slicesOf doc) = replicate k ?q"
    unfolding sl by (simp add: sl_def comp_def map_replicate_const)
  have pcsum: "sum_list (map pcHeight (slicesOf doc)) = height c"
    unfolding pcs by (subst (2) hq) (simp add: sum_list_replicate)
  have incr: "js_less (sourceY (slicesOf doc ! i)) (sourceY (slicesOf doc ! j))"
    if "i < j" "j < k" for i j
    using that qpos by (simp add: nth sl_def)
  have adj: "js_plus (sourceY (slicesOf doc ! i)) (sourceHeight (slicesOf doc ! i))
               = sourceY (slicesOf doc ! Suc i)" if "Suc i < k" for i
    using that by (simp add: nth sl_def algebra_simps)
  have last: "js_plus (sourceY (slicesOf doc ! (k - 1))) (sourceHeight (slicesOf doc ! (k - 1)))
               = Fin (real (height c))"
  proof -
    have "real (k - 1) * real ?q + real ?q = real (k * ?q)"
      using kpos by (simp add: of_nat_diff algebra_simps)
    then show ?thesis using kpos hq by (simp add: nth sl_def)
  qed
  have each: "sourceHeight (slicesOf doc ! i) = Fin (real ?q)
              \<and> sourceY (slicesOf doc ! i) = Fin (real (i * ?q))
              \<and> destHeight (slicesOf doc ! i) = Fin (real ?q)
              \<and> pcHeight (slicesOf doc ! i) = ?q
              \<and> pcWidth (slicesOf doc ! i) = width c" if "i < k" for i
    using that by (simp add: nth sl_def)
  have len: "length doc = k" "length (slicesOf doc) = k"
    by (simp_all add: sl) (simp add: doc_def)
  show ?thesis
    using run len each incr adj sum pcsum last
    by (intro exI [of _ doc]) blast
qed

theorem exact_multiple_partition_witness:
  "(0::nat) < width \<lparr>width = 210, height = 594\<rparr>
   \<and> height \<lparr>width = 210, height = 594\<rparr> < 2 ^ 32
   \<and> (0::nat) < 210 \<and> (0::nat) < 297 \<and> (1::nat) < 2
   \<and> real (height \<lparr>width = 210, height = 594\<rparr>) * real 210
        / real (width \<lparr>width = 210, height = 594\<rparr>) = real 2 * real 297
   \<and> 2 dvd height \<lparr>width = 210, height = 594\<rparr>
   \<and> height \<lparr>width = 210, height = 594\<rparr> * 210 < 2 ^ 53
   \<and> (\<exists>doc. handleMultiPagePDF newPDF \<lparr>width = 210, height = 594\<rparr> 210 297 = Some doc
         \<and> length doc = 2
         \<and> map sourceY (slicesOf doc) = [Fin 0, Fin 297]
         \<and> map sourceHeight (slicesOf doc) = [Fin 297, Fin 297]
         \<and> map pcHeight (slicesOf doc) = [297, 297]
         \<and> js_sum (map sourceHeight (slicesOf doc)) = Fin 594
         \<and> sum_list (map pcHeight (slicesOf doc)) = 594)"
proof -
  let ?c = "\<lparr>width = 210, height = 594\<rparr>"
  have hyp: "real (height ?c) * real 210 / real (width ?c) = real 2 * real 297" by simp
  have dv: "2 dvd height ?c" by simp
  have lt: "height ?c < 2 ^ 32" by simp
  obtain doc where run: "handleMultiPagePDF newPDF ?c (real 210) (real 297) = Some doc"
    and len: "length (slicesOf doc) = 2" "length doc = 2"
    and each: "\<forall>i<2. sourceHeight (slicesOf doc ! i) = Fin (real (height ?c div 2))
                    \<and> sourceY (slicesOf doc ! i) = Fin (real (i * (height ?c div 2)))
                    \<and> destHeight (slicesOf doc ! i) = Fin (real (height ?c div 2))
                    \<and> pcHeight (slicesOf doc ! i) = height ?c div 2
                    \<and> pcWidth (slicesOf doc ! i) = width ?c"
    and sum: "js_sum (map sourceHeight (slicesOf doc)) = Fin (real (height ?c))"
    and pcsum: "sum_list (map pcHeight (slicesOf doc)) = height ?c"
    using exact_multiple_partition [of ?c 210 297 2, OF _ lt _ _ _ hyp dv] by auto
  have small: "height ?c * 210 < 2 ^ 53" by simp
  obtain a b where ab: "slicesOf doc = [a, b]"
    using len(1) by (auto simp: length_Suc_conv numeral_2_eq_2)
  have "sourceY a = Fin 0" "sourceY b = Fin 297" "sourceHeight a = Fin 297" "sourceHeight b = Fin 297"
    "pcHeight a = 297" "pcHeight b = 297"
    using each [rule_format, of 0] each [rule_format, of 1] by (simp_all add: ab)
  then show ?thesis
    using run len sum pcsum small by (simp add: ab)
qed

subsection \<open>A canvas of width zero\<close>

text \<open>
  The hypothesis on the width cannot be dropped: for a canvas of width 0 and positive
  height the scaled height is \<open>Infinity\<close>, so is \<open>totalPages\<close>, and the page loop
  does not end.
\<close>

lemma pageLoop_returns_finite:
  assumes "pageLoop c iw ph totalPages page doc = Some y"
  shows "totalPages \<noteq> PInf"
proof (rule pageLoop.raw_induct [where P = "\<lambda>c iw ph T page doc y. T \<noteq> PInf", OF _ assms])
  fix f c iw ph T page doc y
  assume ih: "\<And>c iw ph T page doc y. f c iw ph T page doc = Some y \<Longrightarrow> T \<noteq> PInf"
    and body: "(if js_less (Fin (real page)) T
                then f c iw ph T (Suc page) (pageBody c iw ph T page doc)
                else Some doc) = Some y"
  show "T \<noteq> PInf"
  proof (cases "js_less (Fin (real page)) T")
    case True
    then show ?thesis using body ih by simp
  next
    case False
    then show ?thesis by auto
  qed
qed

lemma zero_width_never_returns:
  assumes "width c = 0" and "0 < height c" and "0 < pageWidth" and "0 < pageHeight"
  shows "handleMultiPagePDF doc c pageWidth pageHeight = None"
proof -
  have "totalPagesOf c pageWidth pageHeight = PInf"
    using assms by (simp add: totalPagesOf_def scaledHeight_def)
  then show ?thesis
    using pageLoop_returns_finite [of c pageWidth pageHeight PInf 0 doc]
    by (cases "handleMultiPagePDF doc c pageWidth pageHeight")
       (auto simp: handleMultiPagePDF_def Let_def)
qed

lemma zero_width_placeOnPages:
  assumes "width c = 0" and "0 < height c"
  shows "placeOnPages c 210 297 = None"
proof -
  have "scaledHeight c 210 = PInf"
    using assms by (simp add: scaledHeight_def)
  then show ?thesis
    using zero_width_never_returns [OF assms, of 210 297 newPDF]
    by (simp add: placeOnPages_def Let_def)
qed

section \<open>Properties of the content fitter\<close>

lemma adjustForRatio_low: "r \<le> 1.1 \<Longrightarrow> adjustForRatio r t = t"
  by (simp add: adjustForRatio_def)

lemma adjustForRatio_classList:
  "1.1 < r \<Longrightarrow> classList (adjustForRatio r t) = classList_add ''compact'' (classList t)"
  by (simp add: adjustForRatio_def Let_def applyScale_def applyManual_def)

lemma adjustForRatio_style_low: "r \<le> 1.6 \<Longrightarrow> style (adjustForRatio r t) = style t"
  by (simp add: adjustForRatio_def Let_def applyScale_def applyManual_def)

lemma adjustForRatio_style_high:
  "1.6 < r \<Longrightarrow>
   style (adjustForRatio r t) =
     (style t)(''transform'' \<mapsto> Scale (max 0.75 (1 / r)),
               ''transformOrigin'' \<mapsto> Keyword ''top left'',
               ''width'' \<mapsto> Percent (100 / max 0.75 (1 / r)),
               ''height'' \<mapsto> Percent (100 / max 0.75 (1 / r)))"
  by (simp add: adjustForRatio_def Let_def applyScale_def applyManual_def scaleFactorOf_def)

lemma adjustForRatio_blocks_low:
  "r \<le> 2 \<Longrightarrow> contentBlocks (adjustForRatio r t) = contentBlocks t
             \<and> photoStyle (adjustForRatio r t) = photoStyle t"
  by (simp add: adjustForRatio_def Let_def applyScale_def applyManual_def)

lemma adjustForRatio_blocks_high:
  "2 < r \<Longrightarrow>
   contentBlocks (adjustForRatio r t) =
     map (\<lambda>b. b(''margin'' \<mapsto> Keyword ''2px 0'', ''fontSize'' \<mapsto> Keyword ''9px'')) (contentBlocks t)
   \<and> photoStyle (adjustForRatio r t) =
     map_option (\<lambda>p. p(''width'' \<mapsto> Keyword ''50px'', ''height'' \<mapsto> Keyword ''50px'')) (photoStyle t)"
  by (auto simp add: adjustForRatio_def Let_def applyScale_def applyManual_def
        compactBlock_def shrinkPhoto_def split: option.splits)


lemma adjustTemplateForContent_ratio:
  "adjustTemplateForContent measured t = adjustForRatio (real (measured t) / (297 * 3.77953)) t"
  by (simp add: adjustTemplateForContent_def Let_def overflowRatioOf_def a4HeightPx_def)

text \<open>
  Claim C3. \<open>adjustTemplateForContent\<close> acts by the overflow ratio
  \<open>r = contentHeight / (297 * 3.77953)\<close>, and its tiers are cumulative: for
  \<open>r \<le> 1.1\<close> the template is unchanged; for \<open>r > 1.1\<close> the class \<open>compact\<close> is
  added; for \<open>r > 1.6\<close> the style also gets the transform \<open>scale(max(0.75, 1/r))\<close>
  with origin \<open>top left\<close> and width and height \<open>100 / max(0.75, 1/r)\<close> percent (and
  not for \<open>r \<le> 1.6\<close>); for \<open>r > 2.0\<close> every content block also gets margin
  \<open>2px 0\<close> and font size \<open>9px\<close> and the photo, if there is one, gets width and
  height \<open>50px\<close> (and not for \<open>r \<le> 2.0\<close>). The function is total: it has no error
  result.
\<close>

theorem fitter_tiers:
  "adjustTemplateForContent measured t = adjustForRatio (real (measured t) / (297 * 3.77953)) t
   \<and> (r \<le> 1.1 \<longrightarrow> adjustForRatio r t = t)
   \<and> (1.1 < r \<longrightarrow> classList (adjustForRatio r t) = classList_add ''compact'' (classList t)
                  \<and> ''compact'' \<in> set (classList (adjustForRatio r t)))
   \<and> (r \<le> 1.6 \<longrightarrow> style (adjustForRatio r t) = style t)
   \<and> (1.6 < r \<longrightarrow> style (adjustForRatio r t) =
          (style t)(''transform'' \<mapsto> Scale (max 0.75 (1 / r)),
                    ''transformOrigin'' \<mapsto> Keyword ''top left'',
                    ''width'' \<mapsto> Percent (100 / max 0.75 (1 / r)),
                    ''height'' \<mapsto> Percent (100 / max 0.75 (1 / r))))
   \<and> (r \<le> 2.0 \<longrightarrow> contentBlocks (adjustForRatio r t) = contentBlocks t
                  \<and> photoStyle (adjustForRatio r t) = photoStyle t)
   \<and> (2.0 < r \<longrightarrow>
          contentBlocks (adjustForRatio r t) =
            map (\<lambda>b. b(''margin'' \<mapsto> Keyword ''2px 0'', ''fontSize'' \<mapsto> Keyword ''9px''))
              (contentBlocks t)
        \<and> photoStyle (adjustForRatio r t) =
            map_option (\<lambda>p. p(''width'' \<mapsto> Keyword ''50px'', ''height'' \<mapsto> Keyword ''50px''))
              (photoStyle t))"
proof -
  have "1.1 < r \<Longrightarrow> ''compact'' \<in> set (classList (adjustForRatio r t))"
    by (simp add: adjustForRatio_classList classList_add_def)
  then show ?thesis
    using adjustTemplateForContent_ratio [of measured t] adjustForRatio_low [of r t]
      adjustForRatio_classList [of r t] adjustForRatio_style_low [of r t]
      adjustForRatio_style_high [of r t] adjustForRatio_blocks_low [of r t]
      adjustForRatio_blocks_high [of r t]
    by simp
qed

lemma classList_add_idem: "classList_add tok (classList_add tok cl) = classList_add tok cl"
  by (simp add: classList_add_def)

lemma applyScale_idem: "applyScale r (applyScale r t) = applyScale r t"
  by (simp add: applyScale_def Let_def)

lemma compactBlock_idem: "compactBlock (compactBlock b) = compactBlock b"
  by (simp add: compactBlock_def)

lemma shrinkPhoto_idem: "shrinkPhoto (shrinkPhoto p) = shrinkPhoto p"
  by (simp add: shrinkPhoto_def)

lemma applyManual_idem: "applyManual (applyManual t) = applyManual t"
  by (simp add: applyManual_def compactBlock_idem shrinkPhoto_idem comp_def split: option.splits)

lemma adjustForRatio_idem: "adjustForRatio r (adjustForRatio r t) = adjustForRatio r t"
proof -
  have a: "applyScale r (t'\<lparr>classList := cl\<rparr>) = (applyScale r t')\<lparr>classList := cl\<rparr>" for t' cl
    by (simp add: applyScale_def Let_def)
  have b: "applyManual (t'\<lparr>classList := cl\<rparr>) = (applyManual t')\<lparr>classList := cl\<rparr>" for t' cl
    by (simp add: applyManual_def)
  have c: "classList (applyScale r t') = classList t'" "classList (applyManual t') = classList t'" for t'
    by (simp_all add: applyScale_def applyManual_def Let_def)
  have d: "applyScale r (applyManual t') = applyManual (applyScale r t')" for t'
    by (simp add: applyScale_def applyManual_def Let_def)
  show ?thesis
    by (simp add: adjustForRatio_def Let_def a b c d classList_add_idem applyScale_idem applyManual_idem)
qed

text \<open>
  Claim C9. Applying the fitter twice at the same overflow ratio gives the same template
  as applying it once; so does \<open>adjustTemplateForContent\<close> when the second invocation
  measures the same content height as the first.
\<close>

theorem fitter_idempotent:
  "adjustForRatio r (adjustForRatio r t) = adjustForRatio r t
   \<and> (measured (adjustTemplateForContent measured t) = measured t \<longrightarrow>
        adjustTemplateForContent measured (adjustTemplateForContent measured t)
          = adjustTemplateForContent measured t)"
  by (simp add: adjustForRatio_idem adjustTemplateForContent_def Let_def)


theorem fitter_tiers_witness:
  "(1::real) \<le> 1.1
   \<and> adjustForRatio 1
        \<lparr>classList = [''resume''], style = Map.empty, contentBlocks = [Map.empty],
         photoStyle = Some Map.empty\<rparr>
       = \<lparr>classList = [''resume''], style = Map.empty, contentBlocks = [Map.empty],
          photoStyle = Some Map.empty\<rparr>
   \<and> (1.1::real) < 1.3 \<and> (1.3::real) \<le> 1.6 \<and> (1.3::real) \<le> 2.0
   \<and> classList (adjustForRatio 1.3
        \<lparr>classList = [''resume''], style = Map.empty, contentBlocks = [Map.empty],
         photoStyle = Some Map.empty\<rparr>) = [''resume'', ''compact'']
   \<and> style (adjustForRatio 1.3
        \<lparr>classList = [''resume''], style = Map.empty, contentBlocks = [Map.empty],
         photoStyle = Some Map.empty\<rparr>) ''transform'' = None
   \<and> (1.6::real) < real 2358 / (297 * 3.77953) \<and> (2.0::real) < real 2358 / (297 * 3.77953)
   \<and> style (adjustTemplateForContent (\<lambda>t. 2358)
        \<lparr>classList = [''resume''], style = Map.empty, contentBlocks = [Map.empty],
         photoStyle = Some Map.empty\<rparr>) ''transform'' = Some (Scale 0.75)
   \<and> map (\<lambda>b. b ''fontSize'') (contentBlocks (adjustTemplateForContent (\<lambda>t. 2358)
        \<lparr>classList = [''resume''], style = Map.empty, contentBlocks = [Map.empty],
         photoStyle = Some Map.empty\<rparr>)) = [Some (Keyword ''9px'')]
   \<and> map_option (\<lambda>p. (p ''width'', p ''height'')) (photoStyle (adjustTemplateForContent (\<lambda>t. 2358)
        \<lparr>classList = [''resume''], style = Map.empty, contentBlocks = [Map.empty],
         photoStyle = Some Map.empty\<rparr>))
       = Some (Some (Keyword ''50px''), Some (Keyword ''50px''))"
proof -
  let ?t = "\<lparr>classList = [''resume''], style = Map.empty, contentBlocks = [Map.empty],
             photoStyle = Some Map.empty\<rparr>"
  have big: "(2.0::real) < real 2358 / (297 * 3.77953)" by simp
  show ?thesis
    using fitter_tiers [of "\<lambda>t. 2358" ?t 1] fitter_tiers [of "\<lambda>t. 2358" ?t "1.3"]
      fitter_tiers [of "\<lambda>t. 2358" ?t "real 2358 / (297 * 3.77953)"] big
    by (simp add: classList_add_def)
qed

theorem fitter_idempotent_witness:
  "(\<lambda>t. 2300 + length (contentBlocks t))
      (adjustTemplateForContent (\<lambda>t. 2300 + length (contentBlocks t))
         \<lparr>classList = [], style = Map.empty, contentBlocks = [Map.empty, Map.empty],
          photoStyle = None\<rparr>)
     = (\<lambda>t. 2300 + length (contentBlocks t))
         \<lparr>classList = [], style = Map.empty, contentBlocks = [Map.empty, Map.empty],
          photoStyle = None\<rparr>
   \<and> adjustTemplateForContent (\<lambda>t. 2300 + length (contentBlocks t))
        (adjustTemplateForContent (\<lambda>t. 2300 + length (contentBlocks t))
           \<lparr>classList = [], style = Map.empty, contentBlocks = [Map.empty, Map.empty],
            photoStyle = None\<rparr>)
     = adjustTemplateForContent (\<lambda>t. 2300 + length (contentBlocks t))
         \<lparr>classList = [], style = Map.empty, contentBlocks = [Map.empty, Map.empty],
          photoStyle = None\<rparr>
   \<and> classList (adjustTemplateForContent (\<lambda>t. 2300 + length (contentBlocks t))
        (adjustTemplateForContent (\<lambda>t. 2300 + length (contentBlocks t))
           \<lparr>classList = [], style = Map.empty, contentBlocks = [Map.empty, Map.empty],
            photoStyle = None\<rparr>)) = [''compact'']"
proof -
  let ?m = "\<lambda>t. 2300 + length (contentBlocks t)"
  let ?t = "\<lparr>classList = [], style = Map.empty, contentBlocks = [Map.empty, Map.empty],
             photoStyle = None\<rparr>"
  have same: "?m (adjustTemplateForContent ?m ?t) = ?m ?t"
    by (simp add: adjustTemplateForContent_def Let_def adjustForRatio_def applyScale_def
          applyManual_def overflowRatioOf_def a4HeightPx_def)
  have cl: "classList (adjustTemplateForContent ?m ?t) = [''compact'']"
    by (simp add: adjustTemplateForContent_def Let_def adjustForRatio_def applyScale_def
          applyManual_def overflowRatioOf_def a4HeightPx_def classList_add_def)
  from fitter_idempotent [of _ ?t ?m] same
  have "adjustTemplateForContent ?m (adjustTemplateForContent ?m ?t) = adjustTemplateForContent ?m ?t"
    by blast
  with same cl show ?thesis by simp
qed

lemma compactBlock_changes: "compactBlock b \<noteq> Map.empty"
proof
  assume "compactBlock b = Map.empty"
  then have "compactBlock b ''fontSize'' = None" by simp
  then show False by (simp add: compactBlock_def)
qed

text \<open>
  Claim C4 as stated fails on the code. The page height is the constant
  \<open>297 * 3.77953\<close>, not 1000: for content height 2100 the overflow ratio is at most 2.0
  (about 1.87, not 2.1), so the third tier is not applied: content blocks and photo are
  unchanged. The scale factor that the second tier applies is 0.75, which is not within
  0.001 of 0.476.
\<close>

theorem scenario3_counterexample:
  "overflowRatioOf 2100 a4HeightPx \<le> 2.0
   \<and> \<not> \<bar>overflowRatioOf 2100 a4HeightPx - 2.1\<bar> < 0.001
   \<and> contentBlocks (adjustTemplateForContent (measuring 2100) sampleTemplate)
       = contentBlocks sampleTemplate
   \<and> contentBlocks (adjustTemplateForContent (measuring 2100) sampleTemplate)
       \<noteq> map compactBlock (contentBlocks sampleTemplate)
   \<and> photoStyle (adjustTemplateForContent (measuring 2100) sampleTemplate)
       = photoStyle sampleTemplate
   \<and> style (adjustTemplateForContent (measuring 2100) sampleTemplate) ''transform''
       = Some (Scale 0.75)
   \<and> scaleFactorOf (overflowRatioOf 2100 a4HeightPx) = 0.75
   \<and> \<not> \<bar>scaleFactorOf (overflowRatioOf 2100 a4HeightPx) - 0.476\<bar> < 0.001"
proof -
  have r: "overflowRatioOf 2100 a4HeightPx = 2100 / (297 * 3.77953)"
    by (simp add: overflowRatioOf_def a4HeightPx_def)
  have lo: "(1.6::real) < 2100 / (297 * 3.77953)" and hi: "(2100::real) / (297 * 3.77953) \<le> 2.0"
    by simp_all
  have far: "\<not> \<bar>(2100::real) / (297 * 3.77953) - 2.1\<bar> < 0.001" by simp
  have a: "adjustTemplateForContent (measuring 2100) sampleTemplate
             = adjustForRatio (2100 / (297 * 3.77953)) sampleTemplate"
    by (simp add: adjustTemplateForContent_ratio measuring_def)
  have sf: "scaleFactorOf (2100 / (297 * 3.77953)) = 0.75"
    by (simp add: scaleFactorOf_def)
  have tr: "style (adjustForRatio (2100 / (297 * 3.77953)) sampleTemplate) ''transform''
              = Some (Scale 0.75)"
    using adjustForRatio_style_high [OF lo, of sampleTemplate] by simp
  have bl: "contentBlocks (adjustForRatio (2100 / (297 * 3.77953)) sampleTemplate)
              = contentBlocks sampleTemplate"
    "photoStyle (adjustForRatio (2100 / (297 * 3.77953)) sampleTemplate) = photoStyle sampleTemplate"
    using adjustForRatio_blocks_low [of "2100 / (297 * 3.77953)" sampleTemplate] hi by simp_all
  have ne: "contentBlocks sampleTemplate \<noteq> map compactBlock (contentBlocks sampleTemplate)"
    using compactBlock_changes [of Map.empty] by (simp add: sampleTemplate_def)
  show ?thesis
    unfolding r a sf using hi far tr bl ne by simp
qed

text \<open>
  Claim C4, amended. For a measured content height of 2358 pixels the overflow ratio
  against the page height \<open>297 * 3.77953\<close> is within 0.001 of 2.1 and above 2.0; all
  three tiers are applied, and the scale factor of the second tier is
  \<open>max(0.75, 1/ratio)\<close>, which is 0.75.
\<close>

theorem scenario3_all_tiers:
  assumes "measured t = 2358"
  shows "2.0 < overflowRatioOf 2358 a4HeightPx
       \<and> \<bar>overflowRatioOf 2358 a4HeightPx - 2.1\<bar> < 0.001
       \<and> classList (adjustTemplateForContent measured t) = classList_add ''compact'' (classList t)
       \<and> style (adjustTemplateForContent measured t) =
            (style t)(''transform'' \<mapsto> Scale (max 0.75 (1 / overflowRatioOf 2358 a4HeightPx)),
                      ''transformOrigin'' \<mapsto> Keyword ''top left'',
                      ''width'' \<mapsto> Percent (100 / max 0.75 (1 / overflowRatioOf 2358 a4HeightPx)),
                      ''height'' \<mapsto> Percent (100 / max 0.75 (1 / overflowRatioOf 2358 a4HeightPx)))
       \<and> max 0.75 (1 / overflowRatioOf 2358 a4HeightPx) = 0.75
       \<and> contentBlocks (adjustTemplateForContent measured t) =
            map (\<lambda>b. b(''margin'' \<mapsto> Keyword ''2px 0'', ''fontSize'' \<mapsto> Keyword ''9px''))
              (contentBlocks t)
       \<and> photoStyle (adjustTemplateForContent measured t) =
            map_option (\<lambda>p. p(''width'' \<mapsto> Keyword ''50px'', ''height'' \<mapsto> Keyword ''50px''))
              (photoStyle t)"
proof -
  have r: "overflowRatioOf 2358 a4HeightPx = 2358 / (297 * 3.77953)"
    by (simp add: overflowRatioOf_def a4HeightPx_def)
  have b: "(2::real) < 2358 / (297 * 3.77953)" "(1.6::real) < 2358 / (297 * 3.77953)"
    "(1.1::real) < 2358 / (297 * 3.77953)"
    by simp_all
  have near: "\<bar>(2358::real) / (297 * 3.77953) - 2.1\<bar> < 0.001" by simp
  have m: "max 0.75 (1 / (2358 / (297 * 3.77953))) = (0.75::real)" by simp
  have a: "adjustTemplateForContent measured t = adjustForRatio (2358 / (297 * 3.77953)) t"
    using assms by (simp add: adjustTemplateForContent_ratio)
  show ?thesis
    unfolding r a
    using b near m adjustForRatio_classList [OF b(3), of t] adjustForRatio_style_high [OF b(2), of t]
      adjustForRatio_blocks_high [OF b(1), of t]
    by simp
qed

theorem scenario3_all_tiers_witness:
  "measuring 2358 sampleTemplate = 2358
   \<and> classList (adjustTemplateForContent (measuring 2358) sampleTemplate)
       = [''resume-template'', ''compact'']
   \<and> style (adjustTemplateForContent (measuring 2358) sampleTemplate) ''transform''
       = Some (Scale 0.75)
   \<and> contentBlocks (adjustTemplateForContent (measuring 2358) sampleTemplate)
       = [[''margin'' \<mapsto> Keyword ''2px 0'', ''fontSize'' \<mapsto> Keyword ''9px'']]
   \<and> photoStyle (adjustTemplateForContent (measuring 2358) sampleTemplate)
       = Some [''width'' \<mapsto> Keyword ''50px'', ''height'' \<mapsto> Keyword ''50px'']"
proof -
  have h: "measuring 2358 sampleTemplate = 2358" by (simp add: measuring_def)
  note T = scenario3_all_tiers [of "measuring 2358" sampleTemplate, OF h]
  have tr: "style (adjustTemplateForContent (measuring 2358) sampleTemplate) ''transform''
       = Some (Scale 0.75)"
    using T by simp
  show ?thesis
    using T h tr by (simp add: sampleTemplate_def classList_add_def)
qed

section \<open>Properties of field validation\<close>

lemma getField_updateField:
  "getField (updateField f g s) k = (if k = f then map_option g (getField s k) else getField s k)"
proof -
  have "map_of (map (\<lambda>(k', el). if k' = f then (k', map_option g el) else (k', el)) xs) k
        = (if k = f then map_option (map_option g) (map_of xs k) else map_of xs k)" for xs
    by (induction xs) auto
  then show ?thesis
    by (auto simp: getField_def updateField_def split: option.splits)
qed

lemma keys_updateField: "map fst (elementsFields (updateField f g s)) = map fst (elementsFields s)"
  by (simp add: updateField_def comp_def case_prod_beta if_distrib [of fst] cong: if_cong)

lemma checkboxes_updateField: "elementsCheckboxes (updateField f g s) = elementsCheckboxes s"
  by (simp add: updateField_def)

lemma fields_announce: "elementsFields (announceToScreenReader m s) = elementsFields s"
  and checkboxes_announce: "elementsCheckboxes (announceToScreenReader m s) = elementsCheckboxes s"
  and getField_announce: "getField (announceToScreenReader m s) k = getField s k"
  by (simp_all add: announceToScreenReader_def getField_def split: option.splits)

lemma clearFieldError_cache:
  "elementsCheckboxes (clearFieldError f s) = elementsCheckboxes s"
  "map fst (elementsFields (clearFieldError f s)) = map fst (elementsFields s)"
  "(getField (clearFieldError f s) k = None) = (getField s k = None)"
  by (simp_all add: clearFieldError_def checkboxes_updateField keys_updateField getField_updateField)

lemma showFieldError_cache:
  "elementsCheckboxes (showFieldError f m s) = elementsCheckboxes s"
  "map fst (elementsFields (showFieldError f m s)) = map fst (elementsFields s)"
  "(getField (showFieldError f m s) k = None) = (getField s k = None)"
  by (simp_all add: showFieldError_def checkboxes_updateField keys_updateField getField_updateField
        fields_announce checkboxes_announce getField_announce)

lemma showFieldSuccess_cache:
  "elementsCheckboxes (showFieldSuccess f s) = elementsCheckboxes s"
  "map fst (elementsFields (showFieldSuccess f s)) = map fst (elementsFields s)"
  "(getField (showFieldSuccess f s) k = None) = (getField s k = None)"
  by (simp_all add: showFieldSuccess_def checkboxes_updateField keys_updateField getField_updateField)

lemma checkValue_cache:
  "elementsCheckboxes (snd (checkValue f r v q s)) = elementsCheckboxes s"
  "map fst (elementsFields (snd (checkValue f r v q s))) = map fst (elementsFields s)"
  "(getField (snd (checkValue f r v q s)) k = None) = (getField s k = None)"
  by (simp_all add: checkValue_def showFieldError_cache showFieldSuccess_cache split: option.splits)

lemma validateField_cache:
  "elementsCheckboxes (snd (validateField f s)) = elementsCheckboxes s"
  "map fst (elementsFields (snd (validateField f s))) = map fst (elementsFields s)"
  "(getField (snd (validateField f s)) k = None) = (getField s k = None)"
  by (simp_all add: validateField_def Let_def checkValue_cache showFieldError_cache
        clearFieldError_cache split: option.splits sum.splits)


lemma cacheElements_checkboxes:
  "map fst (elementsCheckboxes (cacheElements doc s0)) = [''includePhoto'']"
  by (simp add: cacheElements_def)

lemma checkedOf_missing:
  assumes "map fst (elementsCheckboxes s) = [''includePhoto'']" and "prop \<noteq> ''includePhoto''"
  shows "checkedOf s prop = Inl TypeError"
proof -
  have "prop \<notin> set (map fst (elementsCheckboxes s))"
    using assms by simp
  then have "map_of (elementsCheckboxes s) prop = None"
    by (simp add: map_of_eq_None_iff)
  then show ?thesis by (simp add: checkedOf_def)
qed

lemma isFieldRequired_conditional:
  assumes "map fst (elementsCheckboxes s) = [''includePhoto'']"
    and "f \<in> {''experience'', ''projects'', ''certificates'', ''custom-title'', ''custom-content''}"
  shows "isFieldRequired f s = Inl TypeError"
proof -
  have c: "checkedOf s ''includeExperience'' = Inl TypeError"
    "checkedOf s ''includeProjects'' = Inl TypeError"
    "checkedOf s ''includeCertificates'' = Inl TypeError"
    "checkedOf s ''includeCustom'' = Inl TypeError"
    by (rule checkedOf_missing [OF assms(1)], simp)+
  from assms(2) show ?thesis
    by (elim insertE emptyE) (simp_all add: isFieldRequired_def ValidationRules_def plainRule_def c)
qed

lemma rules_conditional:
  assumes "f \<in> {''experience'', ''projects'', ''certificates'', ''custom-title'', ''custom-content''}"
  shows "map_of ValidationRules f \<noteq> None"
proof -
  from assms show ?thesis
    by (elim insertE emptyE) (simp_all add: ValidationRules_def)
qed

lemma validateField_conditional:
  assumes "map fst (elementsCheckboxes s) = [''includePhoto'']"
    and "f \<in> {''experience'', ''projects'', ''certificates'', ''custom-title'', ''custom-content''}"
    and "getField s f \<noteq> None"
  shows "fst (validateField f s) = False"
proof -
  obtain el where el: "getField s f = Some el" using assms(3) by blast
  obtain r where r: "map_of ValidationRules f = Some r"
    using rules_conditional [OF assms(2)] by blast
  have "map fst (elementsCheckboxes (clearFieldError f s)) = [''includePhoto'']"
    using assms(1) by (simp add: clearFieldError_cache)
  then have "isFieldRequired f (clearFieldError f s) = Inl TypeError"
    using assms(2) by (rule isFieldRequired_conditional)
  then show ?thesis
    by (simp add: validateField_def el r Let_def)
qed

lemma validate_fold_False:
  "fst (fold validateStep fs (False, s)) = False"
  by (induction fs arbitrary: s) (simp_all add: validateStep_def case_prod_beta)

lemma validate_fold_cache:
  "elementsCheckboxes (snd (fold validateStep fs (b, s))) = elementsCheckboxes s
   \<and> map fst (elementsFields (snd (fold validateStep fs (b, s)))) = map fst (elementsFields s)
   \<and> ((getField (snd (fold validateStep fs (b, s))) k = None) = (getField s k = None))"
  by (induction fs arbitrary: b s) (simp_all add: validateStep_def case_prod_beta validateField_cache)

lemma validate_fold_hit:
  assumes "map fst (elementsCheckboxes s) = [''includePhoto'']"
    and "f \<in> {''experience'', ''projects'', ''certificates'', ''custom-title'', ''custom-content''}"
    and "getField s f \<noteq> None" and "f \<in> set fs"
  shows "fst (fold validateStep fs (b, s)) = False"
  using assms
proof (induction fs arbitrary: b s)
  case Nil
  then show ?case by simp
next
  case (Cons x xs)
  show ?case
  proof (cases "x = f")
    case True
    have "fst (validateField x s) = False"
      unfolding True using Cons.prems(1,2,3) by (rule validateField_conditional)
    then have "validateStep x (b, s) = (False, snd (validateField x s))"
      by (simp add: validateStep_def case_prod_beta)
    then show ?thesis
      by (simp add: validate_fold_False)
  next
    case False
    then have "f \<in> set xs" using Cons.prems(4) by simp
    moreover have "map fst (elementsCheckboxes (snd (validateField x s))) = [''includePhoto'']"
      using Cons.prems(1) by (simp add: validateField_cache)
    moreover have "getField (snd (validateField x s)) f \<noteq> None"
      using Cons.prems(3) by (simp add: validateField_cache)
    ultimately show ?thesis
      using Cons.IH [of "snd (validateField x s)"] Cons.prems(2)
      by (simp add: validateStep_def case_prod_beta)
  qed
qed

lemma getField_key: "getField s f \<noteq> None \<Longrightarrow> f \<in> set (map fst (elementsFields s))"
  by (auto simp: getField_def split: option.splits dest!: map_of_SomeD intro: rev_image_eqI)

lemma validateAllFields_conditional:
  assumes "map fst (elementsCheckboxes s) = [''includePhoto'']"
    and "f \<in> {''experience'', ''projects'', ''certificates'', ''custom-title'', ''custom-content''}"
    and "getField s f \<noteq> None"
  shows "fst (validateAllFields s) = False"
  unfolding validateAllFields_def
  using assms getField_key [OF assms(3)] by (rule validate_fold_hit)

lemma validateAllFields_cache:
  "elementsCheckboxes (snd (validateAllFields s)) = elementsCheckboxes s"
  "(getField (snd (validateAllFields s)) k = None) = (getField s k = None)"
  using validate_fold_cache [of "map fst (elementsFields s)" True s k]
  by (simp_all add: validateAllFields_def)


lemma announce_frame:
  "announceToScreenReader m s = s\<lparr> liveRegion := map_option (\<lambda>_. m) (liveRegion s) \<rparr>"
  by (simp add: announceToScreenReader_def split: option.splits)

lemma validateField_frame:
  "snd (validateField f s) =
     s\<lparr> elementsFields := elementsFields (snd (validateField f s)),
        liveRegion := liveRegion (snd (validateField f s)) \<rparr>"
  by (simp add: validateField_def Let_def checkValue_def showFieldError_def showFieldSuccess_def
        clearFieldError_def updateField_def announce_frame split: option.splits sum.splits)

lemma validate_fold_frame:
  "snd (fold validateStep fs (b, s)) =
     s\<lparr> elementsFields := elementsFields (snd (fold validateStep fs (b, s))),
        liveRegion := liveRegion (snd (fold validateStep fs (b, s))) \<rparr>"
proof (induction fs arbitrary: b s)
  case Nil
  show ?case by simp
next
  case (Cons x xs)
  let ?s1 = "snd (validateField x s)"
  let ?b1 = "if \<not> fst (validateField x s) then False else b"
  have step: "validateStep x (b, s) = (?b1, ?s1)"
    by (simp add: validateStep_def case_prod_beta)
  have "snd (fold validateStep xs (?b1, ?s1)) =
          ?s1\<lparr> elementsFields := elementsFields (snd (fold validateStep xs (?b1, ?s1))),
               liveRegion := liveRegion (snd (fold validateStep xs (?b1, ?s1))) \<rparr>"
    by (rule Cons.IH)
  also have "\<dots> = s\<lparr> elementsFields := elementsFields (snd (fold validateStep xs (?b1, ?s1))),
               liveRegion := liveRegion (snd (fold validateStep xs (?b1, ?s1))) \<rparr>"
    by (subst validateField_frame [of x s]) simp
  finally show ?case by (simp add: step)
qed

lemma validateAllFields_frame:
  "snd (validateAllFields s) =
     s\<lparr> elementsFields := elementsFields (snd (validateAllFields s)),
        liveRegion := liveRegion (snd (validateAllFields s)) \<rparr>"
  unfolding validateAllFields_def by (rule validate_fold_frame)

lemma collectFormData_needs_field:
  assumes "f \<in> {''experience'', ''projects'', ''certificates'', ''custom-title'', ''custom-content''}"
    and "getField s f = None"
  shows "collectFormData s = None"
  using assms
  by (elim insertE emptyE) (simp_all add: collectFormData_def trimmedValue_def split: Option.bind_splits)


text \<open>
  Claim C10. In a state whose cached checkbox properties are those that
  \<open>cacheElements\<close> stores: \<open>validateField\<close> returns false for each of the fields
  \<open>experience\<close>, \<open>projects\<close>, \<open>certificates\<close>, \<open>custom-title\<close> and
  \<open>custom-content\<close> that exists in the page, whatever its value;
  \<open>validateAllFields\<close> returns false as soon as one of them exists; and
  \<open>handleFormSubmission\<close> always ends on one of its three early returns, with no file
  saved, for every behaviour of the rasterizer: \<open>generatePDF\<close> is not reached.
\<close>

theorem conditional_fields_block_generation:
  assumes "map fst (elementsCheckboxes s) = map fst (elementsCheckboxes (cacheElements doc s0))"
  shows "(f \<in> {''experience'', ''projects'', ''certificates'', ''custom-title'', ''custom-content''}
            \<and> getField s f \<noteq> None
          \<longrightarrow> fst (validateField f s) = False)
       \<and> ((\<exists>g \<in> {''experience'', ''projects'', ''certificates'', ''custom-title'', ''custom-content''}.
              getField s g \<noteq> None)
          \<longrightarrow> fst (validateAllFields s) = False)
       \<and> (\<exists>s'. handleFormSubmission e s = Some s'
              \<and> msgText (messageBox s') \<in>
                  {''PDF generation already in progress'',
                   ''Please fix the errors above before generating your resume'',
                   ''Failed to collect form data''}
              \<and> downloads s' = downloads s \<and> templates s' = templates s
              \<and> isGenerating s' = isGenerating s)"
proof -
  have cb: "map fst (elementsCheckboxes s) = [''includePhoto'']"
    using assms by (simp add: cacheElements_checkboxes)
  have one: "fst (validateField f s) = False"
    if "f \<in> {''experience'', ''projects'', ''certificates'', ''custom-title'', ''custom-content''}"
      "getField s f \<noteq> None"
    using cb that by (rule validateField_conditional)
  have all: "fst (validateAllFields s) = False"
    if "g \<in> {''experience'', ''projects'', ''certificates'', ''custom-title'', ''custom-content''}"
      "getField s g \<noteq> None" for g
    using cb that by (rule validateAllFields_conditional)
  obtain ok s1 where v: "validateAllFields s = (ok, s1)" by (cases "validateAllFields s")
  have s1: "s1 = s\<lparr> elementsFields := elementsFields s1, liveRegion := liveRegion s1 \<rparr>"
    using validateAllFields_frame [of s] by (simp add: v)
  have frame: "downloads s1 = downloads s" "templates s1 = templates s" "isGenerating s1 = isGenerating s"
    by (subst s1, simp)+
  have collect: "collectFormData s1 = None" if "ok"
  proof -
    have "getField s ''experience'' = None"
    proof (rule ccontr)
      assume "getField s ''experience'' \<noteq> None"
      then have "fst (validateAllFields s) = False"
        using all [of "''experience''"] by simp
      then show False using that by (simp add: v)
    qed
    then have "getField s1 ''experience'' = None"
      using validateAllFields_cache(2) [of s "''experience''"] by (simp add: v)
    then show ?thesis
      using collectFormData_needs_field [of "''experience''" s1] by simp
  qed
  have sub: "\<exists>s'. handleFormSubmission e s = Some s'
              \<and> msgText (messageBox s') \<in>
                  {''PDF generation already in progress'',
                   ''Please fix the errors above before generating your resume'',
                   ''Failed to collect form data''}
              \<and> downloads s' = downloads s \<and> templates s' = templates s
              \<and> isGenerating s' = isGenerating s"
  proof (cases "isGenerating s")
    case True
    then show ?thesis by (simp add: handleFormSubmission_def showMessage_def)
  next
    case False
    show ?thesis
    proof (cases ok)
      case True
      then show ?thesis
        using False collect frame by (simp add: handleFormSubmission_def v showMessage_def)
    next
      case no: False
      then show ?thesis
        using False frame by (simp add: handleFormSubmission_def v showMessage_def)
    qed
  qed
  show ?thesis
  proof (intro conjI)
    show "f \<in> {''experience'', ''projects'', ''certificates'', ''custom-title'', ''custom-content''}
            \<and> getField s f \<noteq> None
          \<longrightarrow> fst (validateField f s) = False"
      by (rule impI, elim conjE, rule one)
    show "(\<exists>g \<in> {''experience'', ''projects'', ''certificates'', ''custom-title'', ''custom-content''}.
              getField s g \<noteq> None)
          \<longrightarrow> fst (validateAllFields s) = False"
      by (rule impI, elim bexE, rule all)
    show "\<exists>s'. handleFormSubmission e s = Some s'
              \<and> msgText (messageBox s') \<in>
                  {''PDF generation already in progress'',
                   ''Please fix the errors above before generating your resume'',
                   ''Failed to collect form data''}
              \<and> downloads s' = downloads s \<and> templates s' = templates s
              \<and> isGenerating s' = isGenerating s"
      by (rule sub)
  qed
qed


theorem conditional_fields_block_generation_witness:
  "map fst (elementsCheckboxes samplePage)
     = map fst (elementsCheckboxes (cacheElements sampleDocument emptyPage))
   \<and> ''experience'' \<in> {''experience'', ''projects'', ''certificates'', ''custom-title'', ''custom-content''}
   \<and> getField samplePage ''experience'' \<noteq> None
   \<and> fst (validateField ''experience'' samplePage) = False
   \<and> fst (validateAllFields samplePage) = False
   \<and> (\<exists>s'. handleFormSubmission renderingEnv samplePage = Some s' \<and> downloads s' = [])"
proof -
  have h1: "map fst (elementsCheckboxes samplePage)
     = map fst (elementsCheckboxes (cacheElements sampleDocument emptyPage))"
    by (simp add: samplePage_def)
  have h2: "getField samplePage ''experience'' \<noteq> None"
    by (simp add: samplePage_def cacheElements_def getField_def fieldNames_def sampleDocument_def)
  have d: "downloads samplePage = []"
    by (simp add: samplePage_def cacheElements_def emptyPage_def)
  show ?thesis
    using conditional_fields_block_generation [OF h1, of "''experience''" renderingEnv] h1 h2 d
    by auto
qed

section \<open>Properties of the generation cycle\<close>

subsection \<open>Template population on a complete page\<close>

lemma completes_withNode: "completes (withNode ident f)"
  by (auto simp: completes_def allPresent_def withNode_def split: option.splits)

lemma completes_runSteps: "list_all completes steps \<Longrightarrow> completes (runSteps steps)"
proof (induction steps)
  case Nil
  show ?case by (simp add: completes_def)
next
  case (Cons st steps)
  then have st: "completes st" and rest: "completes (runSteps steps)" by simp_all
  show ?case
    unfolding completes_def
  proof (intro allI impI)
    fix ns assume ns: "allPresent ns"
    obtain b ns1 where r: "st ns = (b, ns1)" by (cases "st ns")
    have "b" "allPresent ns1" using st ns r by (auto simp: completes_def)
    then show "fst (runSteps (st # steps) ns) \<and> allPresent (snd (runSteps (st # steps) ns))"
      using rest by (simp add: r completes_def)
  qed
qed

lemma completes_setters:
  "completes (setTextContent ident txt)" "completes (setInnerHTML ident html)"
  "completes (setDisplay ident v)"
  by (simp_all add: setTextContent_def setInnerHTML_def setDisplay_def completes_withNode)

lemma completes_fillSection: "completes (fillSection key tmpl txt)"
  by (simp add: fillSection_def completes_runSteps completes_setters)

lemma completes_fillSkills: "completes (fillSkills tmpl txt)"
  by (simp add: fillSkills_def Let_def completes_runSteps completes_setters)

lemma completes_fillCustom: "completes (fillCustom fd)"
  by (simp add: fillCustom_def Let_def completes_runSteps completes_setters)

lemma completes_fillPhoto: "completes (fillPhoto fd)"
  unfolding completes_def
proof (intro allI impI)
  fix ns assume ns: "allPresent ns"
  have w: "fst (withNode ident f ns) \<and> allPresent (snd (withNode ident f ns))" for ident f
    using completes_withNode [of ident f] ns by (simp add: completes_def)
  show "fst (fillPhoto fd ns) \<and> allPresent (snd (fillPhoto fd ns))"
    using ns w by (auto simp: fillPhoto_def Let_def allPresent_def split: option.splits)
qed

lemma completes_populateSteps: "completes (runSteps (populateSteps fd))"
  by (rule completes_runSteps)
    (simp add: populateSteps_def Let_def completes_setters completes_fillSection
       completes_fillSkills completes_fillCustom completes_fillPhoto)

lemma populateTemplate_complete:
  "allPresent (nodes s) \<Longrightarrow> fst (populateTemplate fd s) = None"
  using completes_populateSteps [of fd]
  by (auto simp: populateTemplate_def completes_def split: prod.splits bool.splits)

lemma populateTemplate_frame:
  "\<exists>ns. snd (populateTemplate fd s) = s\<lparr> nodes := ns \<rparr>"
  by (auto simp: populateTemplate_def split: prod.splits bool.splits)


subsection \<open>The shape of a generation cycle\<close>


lemma begin_templates:
  assumes "generatePDF_begin fd s = (None, s1)"
  shows "\<exists>t. templates s (templateId fd) = Some t
           \<and> templates s1 = (templates s)(templateId fd \<mapsto> showTemplate t)"
proof -
  let ?s0 = "showLoading ''Generating your resume...'' (s\<lparr> isGenerating := True \<rparr>)"
  obtain r s2 where p: "populateTemplate fd ?s0 = (r, s2)" by (cases "populateTemplate fd ?s0")
  obtain ns where "s2 = ?s0\<lparr> nodes := ns \<rparr>"
    using populateTemplate_frame [of fd ?s0] by (auto simp: p)
  then have t2: "templates s2 = templates s"
    by (simp add: showLoading_def)
  show ?thesis
    using assms t2
    by (auto simp: generatePDF_begin_def Let_def p updateTemplate_def split: option.splits)
qed


lemma fit_templates:
  assumes "templates s (templateId fd) = Some t"
  shows "templates (generatePDF_fit e fd s) =
           (templates s)(templateId fd \<mapsto> adjustTemplateForContent (scrollHeight e (nodes s)) t)"
  using assms by (simp add: generatePDF_fit_def updateTemplate_def)

lemma adjustForRatio_display: "style (adjustForRatio r t) ''display'' = style t ''display''"
  by (simp add: adjustForRatio_def Let_def applyScale_def applyManual_def)

lemma adjustTemplateForContent_display:
  "style (adjustTemplateForContent measured t) ''display'' = style t ''display''"
  by (simp add: adjustTemplateForContent_def Let_def adjustForRatio_display)

lemma generatePDF_unfold:
  "generatePDF e fd s =
     (case generatePDF_begin fd s of
        (Some err, s1) \<Rightarrow> Some (generatePDF_end (Some err, s1))
      | (None, s1) \<Rightarrow>
          afterRaster fd (rasterize e fd (generatePDF_fit e fd s1)) (generatePDF_fit e fd s1))"
  by (simp add: generatePDF_def afterResources_def afterReflow_def split: prod.splits option.splits)

lemma templates_end_failure:
  "templates (generatePDF_finally (generatePDF_catch s)) = templates s"
  by (simp add: generatePDF_finally_def generatePDF_catch_def hideLoading_def showMessage_def)

lemma rejection_result:
  assumes "generatePDF_begin fd s = (None, s1)"
    and "rasterize e fd (generatePDF_fit e fd s1) = Inl err"
  shows "generatePDF e fd s =
           Some (Some err, generatePDF_finally (generatePDF_catch (generatePDF_fit e fd s1)))"
  using assms by (simp add: generatePDF_unfold afterRaster_def generatePDF_end_def)

lemma rejection_display:
  assumes "generatePDF_begin fd s = (None, s1)"
    and "rasterize e fd (generatePDF_fit e fd s1) = Inl err"
  shows "\<exists>s' t. generatePDF e fd s = Some (Some err, s')
           \<and> templates s' (templateId fd) = Some t
           \<and> style t ''display'' = Some (Keyword ''block'')"
proof -
  obtain t0 where t0: "templates s (templateId fd) = Some t0"
    and t1: "templates s1 = (templates s)(templateId fd \<mapsto> showTemplate t0)"
    using begin_templates [OF assms(1)] by blast
  let ?t = "adjustTemplateForContent (scrollHeight e (nodes s1)) (showTemplate t0)"
  have "templates (generatePDF_fit e fd s1) (templateId fd) = Some ?t"
    using fit_templates [of s1 fd "showTemplate t0" e] t1 by simp
  moreover have "style ?t ''display'' = Some (Keyword ''block'')"
    by (simp add: adjustTemplateForContent_display showTemplate_def)
  ultimately show ?thesis
    using rejection_result [OF assms] by (simp add: templates_end_failure)
qed

lemma success_hides_template:
  assumes "generatePDF_begin fd s = (None, s1)"
    and "rasterize e fd (generatePDF_fit e fd s1) = Inr c"
    and "placeOnPages c 210 297 = Some doc"
  shows "\<exists>s' t. generatePDF e fd s = Some (None, s')
           \<and> templates s' (templateId fd) = Some t
           \<and> style t ''display'' = Some (Keyword ''none'')
           \<and> downloads s' = downloads s1 @ [(resumeFileName (fdName fd), doc)]"
proof -
  obtain t0 where t0: "templates s (templateId fd) = Some t0"
    and t1: "templates s1 = (templates s)(templateId fd \<mapsto> showTemplate t0)"
    using begin_templates [OF assms(1)] by blast
  let ?t = "adjustTemplateForContent (scrollHeight e (nodes s1)) (showTemplate t0)"
  have ft: "templates (generatePDF_fit e fd s1) (templateId fd) = Some ?t"
    using fit_templates [of s1 fd "showTemplate t0" e] t1 by simp
  have d: "downloads (generatePDF_fit e fd s1) = downloads s1"
    by (simp add: generatePDF_fit_def updateTemplate_def split: option.splits)
  show ?thesis
    using assms(2,3) ft d
    by (simp add: generatePDF_unfold assms(1) afterRaster_def generatePDF_assemble_def Let_def
          generatePDF_end_def generatePDF_finally_def hideLoading_def showMessage_def
          announce_frame saveSuccessfulGeneration_def updateTemplate_def hideTemplate_def)
qed


lemma begin_ok:
  assumes "allPresent (nodes s)" and "templates s (templateId fd) = Some t"
  shows "fst (generatePDF_begin fd s) = None"
proof -
  let ?s0 = "showLoading ''Generating your resume...'' (s\<lparr> isGenerating := True \<rparr>)"
  obtain r s2 where p: "populateTemplate fd ?s0 = (r, s2)" by (cases "populateTemplate fd ?s0")
  have "allPresent (nodes ?s0)" using assms(1) by (simp add: showLoading_def)
  then have r: "r = None" using populateTemplate_complete [of ?s0 fd] by (simp add: p)
  obtain ns where "s2 = ?s0\<lparr> nodes := ns \<rparr>"
    using populateTemplate_frame [of fd ?s0] by (auto simp: p)
  then have "templates s2 = templates s" by (simp add: showLoading_def)
  then show ?thesis
    using assms(2) by (simp add: generatePDF_begin_def Let_def p r)
qed

lemma begin_failure:
  assumes "fst (generatePDF_begin fd s) = Some err"
  shows "\<exists>s'. generatePDF e fd s = Some (Some err, s')"
  using assms by (cases "generatePDF_begin fd s") (simp add: generatePDF_unfold generatePDF_end_def)

lemma begin_populate_failure:
  assumes "fst (populateTemplate fd (showLoading ''Generating your resume...'' (s\<lparr> isGenerating := True \<rparr>))) = Some err"
  shows "fst (generatePDF_begin fd s) = Some err"
proof -
  let ?s0 = "showLoading ''Generating your resume...'' (s\<lparr> isGenerating := True \<rparr>)"
  obtain r s2 where p: "populateTemplate fd ?s0 = (r, s2)" by (cases "populateTemplate fd ?s0")
  then have "r = Some err" using assms by simp
  then show ?thesis by (simp add: generatePDF_begin_def Let_def p)
qed

lemma begin_template_missing:
  assumes "fst (populateTemplate fd (showLoading ''Generating your resume...'' (s\<lparr> isGenerating := True \<rparr>))) = None"
    and "templates s (templateId fd) = None"
  shows "fst (generatePDF_begin fd s) = Some (Error (''Template '' @ fdTemplate fd @ '' not found''))"
proof -
  let ?s0 = "showLoading ''Generating your resume...'' (s\<lparr> isGenerating := True \<rparr>)"
  obtain r s2 where p: "populateTemplate fd ?s0 = (r, s2)" by (cases "populateTemplate fd ?s0")
  obtain ns where "s2 = ?s0\<lparr> nodes := ns \<rparr>"
    using populateTemplate_frame [of fd ?s0] by (auto simp: p)
  then have "templates s2 = templates s" by (simp add: showLoading_def)
  then show ?thesis
    using assms by (simp add: generatePDF_begin_def Let_def p)
qed

lemma failure_shape:
  assumes "generatePDF e fd s = Some (Some err, s')"
  shows "\<exists>s0. s' = generatePDF_finally (generatePDF_catch s0)"
  using assms
  by (auto simp: generatePDF_unfold afterRaster_def generatePDF_end_def
        split: prod.splits option.splits sum.splits)

lemma idle_after_failure:
  "messageBox (generatePDF_finally (generatePDF_catch s0)) =
       \<lparr> msgText = ''Failed to generate PDF. Please try again.'', msgClasses = [''error''] \<rparr>"
  "\<not> isGenerating (generatePDF_finally (generatePDF_catch s0))"
  "''hidden'' \<in> set (loadingClasses (loading (generatePDF_finally (generatePDF_catch s0))))"
  "formStyle (generatePDF_finally (generatePDF_catch s0)) ''pointerEvents'' = Some (Keyword ''auto'')"
  by (simp_all add: generatePDF_finally_def generatePDF_catch_def hideLoading_def showMessage_def
        classList_remove_def classList_add_def)

lemma idle_after_outer_catch:
  "messageBox (handleFormSubmission_catch s) =
       \<lparr> msgText = ''An error occurred while generating your resume. Please try again.'',
         msgClasses = [''error''] \<rparr>"
  "isGenerating (handleFormSubmission_catch s) = isGenerating s"
  "''hidden'' \<in> set (loadingClasses (loading (handleFormSubmission_catch s)))"
  "formStyle (handleFormSubmission_catch s) ''pointerEvents'' = Some (Keyword ''auto'')"
  by (simp_all add: handleFormSubmission_catch_def hideLoading_def showMessage_def
        classList_remove_def classList_add_def)

text \<open>
  Claim C7. Whenever \<open>generatePDF\<close> ends by throwing, the state it leaves shows the
  error notice \<open>Failed to generate PDF. Please try again.\<close>, has \<open>isGenerating\<close> reset
  to false, the loading indicator hidden and the form enabled again; the same holds,
  with the notice of the submit handler, once the \<open>catch\<close> clause of
  \<open>handleFormSubmission\<close> has run, so a new request passes the \<open>isGenerating\<close> guard.
  Each of the three failures ends in this way and is rethrown, not swallowed: template
  population throwing, the template element missing, and html2canvas rejecting.
\<close>

theorem failure_returns_to_idle:
  "(generatePDF e fd s = Some (Some err, s') \<longrightarrow>
        messageBox s' =
          \<lparr> msgText = ''Failed to generate PDF. Please try again.'', msgClasses = [''error''] \<rparr>
      \<and> \<not> isGenerating s'
      \<and> ''hidden'' \<in> set (loadingClasses (loading s'))
      \<and> formStyle s' ''pointerEvents'' = Some (Keyword ''auto'')
      \<and> messageBox (handleFormSubmission_catch s') =
          \<lparr> msgText = ''An error occurred while generating your resume. Please try again.'',
            msgClasses = [''error''] \<rparr>
      \<and> \<not> isGenerating (handleFormSubmission_catch s')
      \<and> ''hidden'' \<in> set (loadingClasses (loading (handleFormSubmission_catch s')))
      \<and> formStyle (handleFormSubmission_catch s') ''pointerEvents'' = Some (Keyword ''auto''))
   \<and> (fst (populateTemplate fd
              (showLoading ''Generating your resume...'' (s\<lparr> isGenerating := True \<rparr>))) = Some err
        \<longrightarrow> (\<exists>s2. generatePDF e fd s = Some (Some err, s2)))
   \<and> (fst (populateTemplate fd
              (showLoading ''Generating your resume...'' (s\<lparr> isGenerating := True \<rparr>))) = None
        \<and> templates s (templateId fd) = None
        \<longrightarrow> (\<exists>s2. generatePDF e fd s =
                    Some (Some (Error (''Template '' @ fdTemplate fd @ '' not found'')), s2)))
   \<and> (generatePDF_begin fd s = (None, s1) \<and> rasterize e fd (generatePDF_fit e fd s1) = Inl err
        \<longrightarrow> (\<exists>s2. generatePDF e fd s = Some (Some err, s2)))"
proof (intro conjI impI)
  assume a: "generatePDF e fd s = Some (Some err, s')"
  then obtain s0 where s0: "s' = generatePDF_finally (generatePDF_catch s0)"
    using failure_shape by blast
  show "messageBox s' =
          \<lparr> msgText = ''Failed to generate PDF. Please try again.'', msgClasses = [''error''] \<rparr>"
    unfolding s0 by (rule idle_after_failure)
  show g: "\<not> isGenerating s'" unfolding s0 by (rule idle_after_failure)
  show "''hidden'' \<in> set (loadingClasses (loading s'))" unfolding s0 by (rule idle_after_failure)
  show "formStyle s' ''pointerEvents'' = Some (Keyword ''auto'')"
    unfolding s0 by (rule idle_after_failure)
  show "messageBox (handleFormSubmission_catch s') =
          \<lparr> msgText = ''An error occurred while generating your resume. Please try again.'',
            msgClasses = [''error''] \<rparr>"
    by (rule idle_after_outer_catch)
  show "\<not> isGenerating (handleFormSubmission_catch s')"
    using g by (simp add: idle_after_outer_catch(2))
  show "''hidden'' \<in> set (loadingClasses (loading (handleFormSubmission_catch s')))"
    by (rule idle_after_outer_catch)
  show "formStyle (handleFormSubmission_catch s') ''pointerEvents'' = Some (Keyword ''auto'')"
    by (rule idle_after_outer_catch)
next
  assume "fst (populateTemplate fd
              (showLoading ''Generating your resume...'' (s\<lparr> isGenerating := True \<rparr>))) = Some err"
  then show "\<exists>s2. generatePDF e fd s = Some (Some err, s2)"
    by (intro begin_failure begin_populate_failure)
next
  assume "fst (populateTemplate fd
              (showLoading ''Generating your resume...'' (s\<lparr> isGenerating := True \<rparr>))) = None
        \<and> templates s (templateId fd) = None"
  then show "\<exists>s2. generatePDF e fd s =
                    Some (Some (Error (''Template '' @ fdTemplate fd @ '' not found'')), s2)"
    by (intro begin_failure begin_template_missing) simp_all
next
  assume "generatePDF_begin fd s = (None, s1) \<and> rasterize e fd (generatePDF_fit e fd s1) = Inl err"
  then show "\<exists>s2. generatePDF e fd s = Some (Some err, s2)"
    using rejection_result [of fd s s1 e err] by simp
qed


subsection \<open>The sample page\<close>

lemma samplePage_facts:
  "allPresent (nodes samplePage)"
  "templates samplePage (templateId sampleData) = Some sampleTemplate"
  "templateId sampleData = ''pdf-modern''"
  "isGenerating samplePage = False"
  "downloads samplePage = []"
  by (simp_all add: samplePage_def cacheElements_def emptyPage_def allPresent_def templateId_def
        sampleData_def)

lemma samplePage_begin:
  "generatePDF_begin sampleData samplePage = (None, snd (generatePDF_begin sampleData samplePage))"
  using begin_ok [OF samplePage_facts(1,2)]
  by (metis prod.collapse)

lemma samplePage_rejected:
  "rasterize rejectingEnv sampleData
     (generatePDF_fit rejectingEnv sampleData (snd (generatePDF_begin sampleData samplePage)))
   = Inl (Error ''canvas error'')"
proof -
  let ?s1 = "snd (generatePDF_begin sampleData samplePage)"
  obtain t0 where "templates ?s1 = (templates samplePage)(templateId sampleData \<mapsto> showTemplate t0)"
    using begin_templates [OF samplePage_begin] by blast
  then have "templates (generatePDF_fit rejectingEnv sampleData ?s1) (templateId sampleData) \<noteq> None"
    using fit_templates [of ?s1 sampleData "showTemplate t0" rejectingEnv] by simp
  then show ?thesis
    by (auto simp: rasterize_def rejectingEnv_def)
qed

theorem failure_returns_to_idle_witness:
  "fst (populateTemplate sampleData
          (showLoading ''Generating your resume...''
             (emptyPage\<lparr> nodes := Map.empty, isGenerating := True \<rparr>)))
     = Some (Error ''Failed to populate template with form data'')
   \<and> (\<exists>s'. generatePDF renderingEnv sampleData (emptyPage\<lparr> nodes := Map.empty \<rparr>)
                = Some (Some (Error ''Failed to populate template with form data''), s')
            \<and> msgClasses (messageBox s') = [''error''] \<and> \<not> isGenerating s'
            \<and> ''hidden'' \<in> set (loadingClasses (loading s')))
   \<and> templates (emptyPage\<lparr> templates := Map.empty \<rparr>) (templateId sampleData) = None
   \<and> (\<exists>s'. generatePDF renderingEnv sampleData (emptyPage\<lparr> templates := Map.empty \<rparr>)
                = Some (Some (Error ''Template modern not found''), s')
            \<and> msgClasses (messageBox s') = [''error''] \<and> \<not> isGenerating s'
            \<and> ''hidden'' \<in> set (loadingClasses (loading s')))
   \<and> rasterize rejectingEnv sampleData
        (generatePDF_fit rejectingEnv sampleData (snd (generatePDF_begin sampleData samplePage)))
       = Inl (Error ''canvas error'')
   \<and> (\<exists>s'. generatePDF rejectingEnv sampleData samplePage = Some (Some (Error ''canvas error''), s')
            \<and> msgClasses (messageBox s') = [''error''] \<and> \<not> isGenerating s'
            \<and> ''hidden'' \<in> set (loadingClasses (loading s'))
            \<and> msgClasses (messageBox (handleFormSubmission_catch s')) = [''error'']
            \<and> \<not> isGenerating (handleFormSubmission_catch s'))"
proof -
  let ?load = "showLoading ''Generating your resume...''"
  let ?A = "emptyPage\<lparr> nodes := Map.empty \<rparr>"
  let ?B = "emptyPage\<lparr> templates := Map.empty \<rparr>"
  have pA: "fst (populateTemplate sampleData (?load (?A\<lparr> isGenerating := True \<rparr>)))
              = Some (Error ''Failed to populate template with form data'')"
    by (simp add: populateTemplate_def populateSteps_def Let_def setTextContent_def withNode_def
          showLoading_def emptyPage_def)
  then have pA': "fst (populateTemplate sampleData
          (?load (emptyPage\<lparr> nodes := Map.empty, isGenerating := True \<rparr>)))
     = Some (Error ''Failed to populate template with form data'')"
    by simp
  obtain sA where sA: "generatePDF renderingEnv sampleData ?A
      = Some (Some (Error ''Failed to populate template with form data''), sA)"
    using failure_returns_to_idle [of renderingEnv sampleData ?A
        "Error ''Failed to populate template with form data''"] pA
    by blast
  have iA: "msgClasses (messageBox sA) = [''error''] \<and> \<not> isGenerating sA
            \<and> ''hidden'' \<in> set (loadingClasses (loading sA))"
    using failure_returns_to_idle [of renderingEnv sampleData ?A
        "Error ''Failed to populate template with form data''" sA] sA
    by simp
  have "allPresent (nodes (?load (?B\<lparr> isGenerating := True \<rparr>)))"
    by (simp add: showLoading_def emptyPage_def allPresent_def)
  then have pB: "fst (populateTemplate sampleData (?load (?B\<lparr> isGenerating := True \<rparr>))) = None"
    by (rule populateTemplate_complete)
  have tB: "templates ?B (templateId sampleData) = None" by simp
  have name: "''Template '' @ fdTemplate sampleData @ '' not found'' = ''Template modern not found''"
    by (simp add: sampleData_def)
  obtain sB where sB: "generatePDF renderingEnv sampleData ?B
      = Some (Some (Error ''Template modern not found''), sB)"
    using failure_returns_to_idle [of renderingEnv sampleData ?B] pB tB unfolding name
    by blast
  have iB: "msgClasses (messageBox sB) = [''error''] \<and> \<not> isGenerating sB
            \<and> ''hidden'' \<in> set (loadingClasses (loading sB))"
    using failure_returns_to_idle [of renderingEnv sampleData ?B
        "Error ''Template modern not found''" sB] sB
    by simp
  obtain sC where sC: "generatePDF rejectingEnv sampleData samplePage
      = Some (Some (Error ''canvas error''), sC)"
    using failure_returns_to_idle [of rejectingEnv sampleData samplePage "Error ''canvas error''" _
        "snd (generatePDF_begin sampleData samplePage)"]
      samplePage_begin samplePage_rejected
    by blast
  have iC: "msgClasses (messageBox sC) = [''error''] \<and> \<not> isGenerating sC
            \<and> ''hidden'' \<in> set (loadingClasses (loading sC))
            \<and> msgClasses (messageBox (handleFormSubmission_catch sC)) = [''error'']
            \<and> \<not> isGenerating (handleFormSubmission_catch sC)"
    using failure_returns_to_idle [of rejectingEnv sampleData samplePage "Error ''canvas error''" sC] sC
    by simp
  show ?thesis
    using pA' sA iA tB sB iB samplePage_rejected sC iC by blast
qed

text \<open>
  Claim C5 does not hold on the code. On the sample page, whose template is hidden, a
  cycle in which html2canvas rejects ends with the error rethrown and the template still
  displayed: \<open>display\<close> is \<open>block\<close>, as set before rasterization. Only the path on
  which html2canvas resolves sets it back to \<open>none\<close>.
\<close>

theorem raster_failure_leaves_template_shown:
  "(\<exists>t. templates samplePage ''pdf-modern'' = Some t \<and> style t ''display'' = Some (Keyword ''none''))
   \<and> (\<exists>s' t. generatePDF rejectingEnv sampleData samplePage = Some (Some (Error ''canvas error''), s')
          \<and> templates s' ''pdf-modern'' = Some t
          \<and> style t ''display'' = Some (Keyword ''block''))"
proof -
  have before: "\<exists>t. templates samplePage ''pdf-modern'' = Some t
                  \<and> style t ''display'' = Some (Keyword ''none'')"
    by (simp add: samplePage_def cacheElements_def emptyPage_def sampleTemplate_def)
  have after: "\<exists>s' t. generatePDF rejectingEnv sampleData samplePage = Some (Some (Error ''canvas error''), s')
          \<and> templates s' ''pdf-modern'' = Some t
          \<and> style t ''display'' = Some (Keyword ''block'')"
    using rejection_display [OF samplePage_begin samplePage_rejected]
    by (simp add: samplePage_facts(3))
  show ?thesis
    by (intro conjI before after)
qed

subsection \<open>A request during a cycle\<close>

lemma fit_messageBox:
  "generatePDF_fit e fd (s\<lparr> messageBox := m \<rparr>) = (generatePDF_fit e fd s)\<lparr> messageBox := m \<rparr>"
  by (simp add: generatePDF_fit_def updateTemplate_def split: option.splits)

lemma rasterize_messageBox: "rasterize e fd (s\<lparr> messageBox := m \<rparr>) = rasterize e fd s"
  by (simp add: rasterize_def split: option.splits)

lemma assemble_messageBox:
  "generatePDF_assemble fd c (s\<lparr> messageBox := m \<rparr>) = generatePDF_assemble fd c s"
  by (simp add: generatePDF_assemble_def Let_def updateTemplate_def showMessage_def
        split: option.splits)

lemma end_messageBox:
  "generatePDF_end (Some err, s\<lparr> messageBox := m \<rparr>) = generatePDF_end (Some err, s)"
  by (simp add: generatePDF_end_def generatePDF_catch_def showMessage_def)

lemma afterRaster_messageBox:
  "afterRaster fd outcome (s\<lparr> messageBox := m \<rparr>) = afterRaster fd outcome s"
  by (simp add: afterRaster_def assemble_messageBox end_messageBox split: sum.splits)

lemma afterReflow_messageBox:
  "afterReflow e fd (s\<lparr> messageBox := m \<rparr>) = afterReflow e fd s"
  by (simp add: afterReflow_def rasterize_messageBox afterRaster_messageBox)

lemma afterResources_messageBox:
  "afterResources e fd (s\<lparr> messageBox := m \<rparr>) = afterResources e fd s"
  by (simp add: afterResources_def fit_messageBox afterReflow_messageBox)

text \<open>
  Claim C6. A submission that arrives while \<open>isGenerating\<close> is set returns at once: the
  handler's whole effect is the notice \<open>PDF generation already in progress\<close> in the
  message container, and every other component of the state is unchanged; nothing is
  left pending. The cycle in progress is not affected: from each of its three suspension
  points, the rest of \<open>generatePDF\<close> gives the same result (error thrown and final
  state) from the state after the rejection as from the state before it.
\<close>

theorem concurrent_request_rejected:
  assumes "isGenerating s"
  shows "handleFormSubmission e s =
           Some (s\<lparr> messageBox :=
                     \<lparr> msgText = ''PDF generation already in progress'',
                       msgClasses = [''warning''] \<rparr> \<rparr>)
       \<and> afterResources e2 fd (the (handleFormSubmission e s)) = afterResources e2 fd s
       \<and> afterReflow e2 fd (the (handleFormSubmission e s)) = afterReflow e2 fd s
       \<and> afterRaster fd outcome (the (handleFormSubmission e s)) = afterRaster fd outcome s"
proof -
  have r: "handleFormSubmission e s =
           Some (s\<lparr> messageBox :=
                     \<lparr> msgText = ''PDF generation already in progress'',
                       msgClasses = [''warning''] \<rparr> \<rparr>)"
    using assms by (simp add: handleFormSubmission_def showMessage_def classList_remove_def)
  show ?thesis
    unfolding r option.sel
    by (simp only: afterResources_messageBox afterReflow_messageBox afterRaster_messageBox simp_thms)
qed

theorem concurrent_request_rejected_witness:
  "isGenerating (samplePage\<lparr> isGenerating := True \<rparr>)
   \<and> handleFormSubmission renderingEnv (samplePage\<lparr> isGenerating := True \<rparr>) =
       Some (samplePage\<lparr> isGenerating := True,
                          messageBox := \<lparr> msgText = ''PDF generation already in progress'',
                                          msgClasses = [''warning''] \<rparr> \<rparr>)
   \<and> afterRaster sampleData (Inl (Error ''canvas error''))
        (the (handleFormSubmission renderingEnv (samplePage\<lparr> isGenerating := True \<rparr>)))
       = afterRaster sampleData (Inl (Error ''canvas error'')) (samplePage\<lparr> isGenerating := True \<rparr>)
   \<and> afterRaster sampleData (Inl (Error ''canvas error'')) (samplePage\<lparr> isGenerating := True \<rparr>)
       \<noteq> None"
proof -
  have g: "isGenerating (samplePage\<lparr> isGenerating := True \<rparr>)" by simp
  have n: "afterRaster sampleData (Inl (Error ''canvas error'')) (samplePage\<lparr> isGenerating := True \<rparr>)
       \<noteq> None"
    by (simp add: afterRaster_def)
  note T = concurrent_request_rejected [OF g, of renderingEnv renderingEnv sampleData
        "Inl (Error ''canvas error'')"]
  have r: "handleFormSubmission renderingEnv (samplePage\<lparr> isGenerating := True \<rparr>) =
       Some (samplePage\<lparr> isGenerating := True,
                          messageBox := \<lparr> msgText = ''PDF generation already in progress'',
                                          msgClasses = [''warning''] \<rparr> \<rparr>)"
    using T by (rule conjunct1)
  have eq: "afterRaster sampleData (Inl (Error ''canvas error''))
        (the (handleFormSubmission renderingEnv (samplePage\<lparr> isGenerating := True \<rparr>)))
       = afterRaster sampleData (Inl (Error ''canvas error'')) (samplePage\<lparr> isGenerating := True \<rparr>)"
    using T by (elim conjE)
  show ?thesis
    by (intro conjI g r eq n)
qed

subsection \<open>The single-page path\<close>

text \<open>
  Claim C2. For a canvas of positive width whose scaled height
  \<open>height * pageWidth / width\<close> is at most the page height, the document has exactly one
  page, holding the whole canvas at \<open>(0, 0)\<close> with the full page width and the scaled
  height; it contains no page slice, so the paginator has not run. With the geometry of
  \<open>generatePDF\<close>, 210 by 297, this is the document that is saved.
\<close>

theorem single_page_bypass:
  assumes "0 < width c"
    and "real (height c) * pageWidth / real (width c) \<le> pageHeight"
  shows "placeOnPages c pageWidth pageHeight =
           Some [[\<lparr> imageData = CanvasData c, imgFormat = ''PNG'', imgX = 0, imgY = 0,
                    imgW = Fin pageWidth,
                    imgH = Fin (real (height c) * pageWidth / real (width c)) \<rparr>]]
       \<and> length (the (placeOnPages c pageWidth pageHeight)) = 1
       \<and> slicesOf (the (placeOnPages c pageWidth pageHeight)) = []
       \<and> (pageWidth = 210 \<and> pageHeight = 297 \<longrightarrow>
            (\<exists>s'. generatePDF_assemble fd c s = Some s'
               \<and> downloads s' = downloads s @
                    [(resumeFileName (fdName fd),
                      [[\<lparr> imageData = CanvasData c, imgFormat = ''PNG'', imgX = 0, imgY = 0,
                          imgW = Fin 210,
                          imgH = Fin (real (height c) * 210 / real (width c)) \<rparr>]])]))"
proof -
  have sc: "scaledHeight c pageWidth = Fin (real (height c) * pageWidth / real (width c))"
    using assms(1) by (simp add: scaledHeight_def)
  have p: "placeOnPages c pageWidth pageHeight =
           Some [[\<lparr> imageData = CanvasData c, imgFormat = ''PNG'', imgX = 0, imgY = 0,
                    imgW = Fin pageWidth,
                    imgH = Fin (real (height c) * pageWidth / real (width c)) \<rparr>]]"
    using assms(2) by (simp add: placeOnPages_def Let_def sc addImage_def newPDF_def)
  have a: "\<exists>s'. generatePDF_assemble fd c s = Some s'
               \<and> downloads s' = downloads s @
                    [(resumeFileName (fdName fd),
                      [[\<lparr> imageData = CanvasData c, imgFormat = ''PNG'', imgX = 0, imgY = 0,
                          imgW = Fin 210,
                          imgH = Fin (real (height c) * 210 / real (width c)) \<rparr>]])]"
    if "pageWidth = 210 \<and> pageHeight = 297"
    using p that
    by (simp add: generatePDF_assemble_def Let_def saveSuccessfulGeneration_def showMessage_def
          announce_frame updateTemplate_def split: option.splits)
  show ?thesis
    unfolding p option.sel using a by (simp add: slicesOf_def)
qed

theorem single_page_bypass_witness:
  "(0::nat) < width \<lparr>width = 1191, height = 1500\<rparr>
   \<and> real (height \<lparr>width = 1191, height = 1500\<rparr>) * 210
        / real (width \<lparr>width = 1191, height = 1500\<rparr>) \<le> 297
   \<and> placeOnPages \<lparr>width = 1191, height = 1500\<rparr> 210 297 =
       Some [[\<lparr> imageData = CanvasData \<lparr>width = 1191, height = 1500\<rparr>, imgFormat = ''PNG'',
                imgX = 0, imgY = 0, imgW = Fin 210, imgH = Fin (105000 / 397) \<rparr>]]
   \<and> (\<exists>s'. generatePDF_assemble sampleData \<lparr>width = 1191, height = 1500\<rparr> samplePage = Some s'
          \<and> map (length \<circ> snd) (downloads s') = [1])"
proof -
  let ?c = "\<lparr>width = 1191, height = 1500\<rparr>"
  have h1: "0 < width ?c" by simp
  have h2: "real (height ?c) * 210 / real (width ?c) \<le> 297" by simp
  show ?thesis
    using single_page_bypass [OF h1 h2, of sampleData samplePage] h2
    by (auto simp: samplePage_facts(5))
qed

end
